theory Spec2Isabelle
  imports Complex_Main "HOL-Library.Sublist"
begin

section \<open>Values shared by the tools\<close>

text \<open>
  The three tool classes of \<^verbatim>\<open>backend/src/agents/tools\<close> are embedded here:
  \<^verbatim>\<open>Neo4jThoughtTools\<close> (neo_4j_tool.py), \<^verbatim>\<open>PineconeTools\<close> (pinecone_tool.py) and
  \<^verbatim>\<open>LightRAGTool\<close> (lightrag_tool.py). Each method becomes a function from its arguments
  and the state before the call to its reply and the state after it.

  Python exceptions are values. An exception carries the text that \<^verbatim>\<open>str(e)\<close> yields.
  A constructor stands for its class and the subclasses not listed; \<^verbatim>\<open>JSONDecodeError\<close>, a
  subclass of \<^verbatim>\<open>ValueError\<close>, is listed because one handler names it.
\<close>

datatype exn =
    ValueError string
  | RuntimeError string
  | AttributeError string
  | ConstraintError string
  | CypherSyntaxError string
  | ArgumentError string
  | ServiceUnavailable string
  | ConfigurationError string
  | JSONDecodeError string
  | RecursionError string
  | TypeError string
  | OtherException string

fun str_exn :: "exn \<Rightarrow> string" where
  "str_exn (ValueError m) = m"
| "str_exn (RuntimeError m) = m"
| "str_exn (AttributeError m) = m"
| "str_exn (ConstraintError m) = m"
| "str_exn (CypherSyntaxError m) = m"
| "str_exn (ArgumentError m) = m"
| "str_exn (ServiceUnavailable m) = m"
| "str_exn (ConfigurationError m) = m"
| "str_exn (JSONDecodeError m) = m"
| "str_exn (RecursionError m) = m"
| "str_exn (TypeError m) = m"
| "str_exn (OtherException m) = m"

text \<open>A value between single quotes inside an f-string: \<^verbatim>\<open>'{x}'\<close>.\<close>

definition quoted :: "string \<Rightarrow> string" where
  "quoted x = [CHR 0x27] @ x @ [CHR 0x27]"

text \<open>
  JSON values, as \<^verbatim>\<open>json.dumps\<close> accepts them and \<^verbatim>\<open>json.loads\<close> returns them. A Python
  \<^verbatim>\<open>dict\<close> with string keys is an association list in insertion order, each key once.
  \<open>JTuple\<close> is a Python tuple: \<^verbatim>\<open>json.dumps\<close> accepts it, \<^verbatim>\<open>json.loads\<close> never returns one.
\<close>

datatype json =
    JNull
  | JBool bool
  | JNum int
  | JFloat real
  | JStr string
  | JArr "json list"
  | JTuple "json list"
  | JObj "(string \<times> json) list"

type_synonym pydict = "(string \<times> json) list"

text \<open>
  A string, as \<^verbatim>\<open>json.loads\<close> sees it: the text of a JSON value; a text that is no JSON, on
  which it raises \<^verbatim>\<open>JSONDecodeError\<close>; or a text nested deeper than the interpreter
  recurses, on which it raises \<^verbatim>\<open>RecursionError\<close>.
\<close>

datatype json_text = Json json | NotJson string | TooDeep string

text \<open>
  The \<^verbatim>\<open>json\<close> module. \<^verbatim>\<open>json.dumps\<close> writes the text of its argument, a tuple as an
  array; \<^verbatim>\<open>json.loads\<close> returns the value of a text or raises.
\<close>

fun written :: "json \<Rightarrow> json" where
  "written (JArr xs) = JArr (map written xs)"
| "written (JTuple xs) = JArr (map written xs)"
| "written (JObj ps) = JObj (map (\<lambda>p. (fst p, written (snd p))) ps)"
| "written v = v"


definition json_dumps :: "json \<Rightarrow> json_text" where
  "json_dumps v = Json (written v)"

definition json_loads :: "json_text \<Rightarrow> exn + json" where
  "json_loads x =
     (case x of
        Json v \<Rightarrow> Inr v
      | NotJson m \<Rightarrow> Inl (JSONDecodeError m)
      | TooDeep m \<Rightarrow> Inl (RecursionError m))"

section \<open>The thought graph: \<^verbatim>\<open>Neo4jThoughtTools\<close>\<close>

subsection \<open>The database behind the driver\<close>

text \<open>
  A \<^verbatim>\<open>Thought\<close> node has the four properties that \<^verbatim>\<open>add_thought\<close> writes. The property
  \<^verbatim>\<open>metadata_json\<close> is optional because the readers test for it
  (\<^verbatim>\<open>if "metadata_json" in thought\<close>). The property \<^verbatim>\<open>id\<close> is called \<open>node_id\<close>.
  A timestamp is the reading of the server's clock, a natural number.
\<close>

record thought =
  node_id :: string
  content :: string
  timestamp :: nat
  metadata_json :: "json_text option"

text \<open>
  A relationship joins two node ids, has a type and the property \<^verbatim>\<open>weight\<close>, and the other
  properties given by the caller. A weight is a Python float; it is only stored and
  compared here, so it is a real number.
\<close>

record relationship =
  source_of :: string
  target_of :: string
  rel_type :: string
  weight :: real
  properties :: pydict

text \<open>
  The database: whether the constraint \<^verbatim>\<open>thought_id_unique\<close> exists, the nodes in the order of
  their creation (the order in which a \<^verbatim>\<open>MATCH\<close> without \<^verbatim>\<open>ORDER BY\<close> lists them), and the
  relationships.
\<close>

record graph_db =
  thought_id_unique :: bool
  nodes :: "thought list"
  relationships :: "relationship list"

text \<open>
  \<^verbatim>\<open>CREATE CONSTRAINT thought_id_unique IF NOT EXISTS FOR (t:Thought) REQUIRE t.id IS UNIQUE\<close>:
  nothing happens when the constraint exists; it cannot be created over nodes that share
  an id.
\<close>

definition create_constraint :: "graph_db \<Rightarrow> exn + graph_db" where
  "create_constraint d =
     (if thought_id_unique d then Inr d
      else if distinct (map node_id (nodes d)) then Inr (d\<lparr>thought_id_unique := True\<rparr>)
      else Inl (ConstraintError ''Unable to create constraint thought_id_unique''))"

text \<open>
  \<^verbatim>\<open>CREATE (t:Thought {id: $id, content: $content, timestamp: datetime(), metadata_json: $metadata_json})\<close>:
  under the constraint an id that is present is refused and nothing is written.
\<close>

definition create_thought :: "nat \<Rightarrow> string \<Rightarrow> string \<Rightarrow> json_text \<Rightarrow> graph_db \<Rightarrow> exn + graph_db" where
  "create_thought now i c mj d =
     (if thought_id_unique d \<and> i \<in> set (map node_id (nodes d))
      then Inl (ConstraintError i)
      else Inr (d\<lparr>nodes := nodes d @
             [\<lparr>node_id = i, content = c, timestamp = now, metadata_json = Some mj\<rparr>]\<rparr>))"

text \<open>\<^verbatim>\<open>MATCH (t:Thought {id: $id}) RETURN t\<close> followed by \<^verbatim>\<open>result.single()\<close>.\<close>

definition match_thought :: "string \<Rightarrow> graph_db \<Rightarrow> thought option" where
  "match_thought i d = find (\<lambda>n. node_id n = i) (nodes d)"

text \<open>
  The query of \<^verbatim>\<open>connect_thoughts\<close> is assembled as text: the relationship type is pasted
  between backquotes and each property key and parameter name is pasted bare, so what the
  caller passes can change what the query says. The query is the one written in the
  source when the type is made of letters, digits and underscores and no property other
  than \<^verbatim>\<open>weight\<close> is passed; \<open>query_ok\<close> says so. Outside of that, what the server does
  with the text is not described here: it is the function \<open>beyond\<close> that every use of
  the query takes.
\<close>

definition ident_start :: "char \<Rightarrow> bool" where
  "ident_start c = (c \<in> set (''abcdefghijklmnopqrstuvwxyz'' @ ''ABCDEFGHIJKLMNOPQRSTUVWXYZ'' @ ''_''))"

definition ident_part :: "char \<Rightarrow> bool" where
  "ident_part c = (ident_start c \<or> c \<in> set ''0123456789'')"

definition cypher_name_ok :: "string \<Rightarrow> bool" where
  "cypher_name_ok n = (n \<noteq> [] \<and> list_all ident_part n)"

text \<open>The keys that the loops of \<^verbatim>\<open>connect_thoughts\<close> copy: all but \<^verbatim>\<open>weight\<close>.\<close>

definition other_props :: "pydict \<Rightarrow> pydict" where
  "other_props ps = filter (\<lambda>kv. fst kv \<noteq> ''weight'') ps"

definition query_ok :: "string \<Rightarrow> pydict \<Rightarrow> bool" where
  "query_ok rt ps = (cypher_name_ok rt \<and> other_props ps = [])"

text \<open>
  \<^verbatim>\<open>MATCH (source:Thought {id: $source_id}) MATCH (target:Thought {id: $target_id})
  MERGE (source)-[r:`type` {weight: $weight}]->(target) RETURN r\<close>:
  no row when an end is missing; otherwise a relationship of this type and weight from
  the source to the target is found, or one is created when there is none. The result
  tells whether a row came back.
\<close>

definition same_relationship :: "string \<Rightarrow> string \<Rightarrow> string \<Rightarrow> real \<Rightarrow> relationship \<Rightarrow> bool" where
  "same_relationship src tgt rt w e =
     (source_of e = src \<and> target_of e = tgt \<and> rel_type e = rt \<and> weight e = w)"

definition merge_relationship ::
  "(graph_db \<Rightarrow> exn + (bool \<times> graph_db)) \<Rightarrow> string \<Rightarrow> string \<Rightarrow> string \<Rightarrow> real \<Rightarrow> pydict
     \<Rightarrow> graph_db \<Rightarrow> exn + (bool \<times> graph_db)" where
  "merge_relationship beyond src tgt rt w ps d =
     (if \<not> query_ok rt ps then beyond d
      else if match_thought src d = None \<or> match_thought tgt d = None then Inr (False, d)
      else if list_ex (same_relationship src tgt rt w) (relationships d) then Inr (True, d)
      else Inr (True, d\<lparr>relationships := relationships d @
             [\<lparr>source_of = src, target_of = tgt, rel_type = rt, weight = w, properties = []\<rparr>]\<rparr>))"

text \<open>
  \<^verbatim>\<open>MATCH (t:Thought) WHERE t.content CONTAINS $query_text RETURN t LIMIT $limit\<close>:
  the nodes whose content has the text as a substring, in the order of the store, cut at
  the limit. A negative limit is refused by the server.
\<close>

definition search_query :: "string \<Rightarrow> int \<Rightarrow> graph_db \<Rightarrow> exn + thought list" where
  "search_query q limit d =
     (if limit < 0 then Inl (ArgumentError ''LIMIT: must be a non-negative integer'')
      else Inr (take (nat limit) (filter (\<lambda>n. sublist q (content n)) (nodes d))))"

text \<open>
  \<^verbatim>\<open>MATCH (t:Thought) RETURN t.id as id ORDER BY t.timestamp DESC\<close>: the one query of the
  class that orders its rows.
\<close>

definition all_ids_query :: "graph_db \<Rightarrow> string list" where
  "all_ids_query d = map node_id (rev (sort_key timestamp (nodes d)))"

subsection \<open>What the methods need from outside\<close>

text \<open>
  \<^verbatim>\<open>uuid.uuid4()\<close> is the sequence of the identifiers it hands out (the state counts how many
  were drawn); \<open>dumps\<close> and \<open>loads\<close> are what the methods call as \<^verbatim>\<open>json.dumps\<close> and
  \<^verbatim>\<open>json.loads\<close>. With the standard library they are \<open>json_dumps\<close> and
  \<open>json_loads\<close>: that environment is \<open>python_json\<close>.
\<close>

record py_env =
  uuid4 :: "nat \<Rightarrow> string"
  dumps :: "json \<Rightarrow> json_text"
  loads :: "json_text \<Rightarrow> exn + json"

definition python_json :: "(nat \<Rightarrow> string) \<Rightarrow> py_env" where
  "python_json ids = \<lparr>uuid4 = ids, dumps = json_dumps, loads = json_loads\<rparr>"

text \<open>
  What \<^verbatim>\<open>GraphDatabase.driver(...)\<close> and \<^verbatim>\<open>verify_connectivity()\<close> meet: a driver that
  cannot be built, a server that does not answer, each with the exception raised, or a
  connection.
\<close>

datatype handshake = NoDriver exn | Unreachable exn | Connected

subsection \<open>The tool object and its replies\<close>

text \<open>
  \<open>driver\<close> tells whether \<^verbatim>\<open>self.driver\<close> is not \<^verbatim>\<open>None\<close>. The database the driver
  talks to is kept beside the two attributes, and answers every query sent to it.
\<close>

record neo4j_tools =
  driver :: bool
  is_initialized :: bool
  db :: graph_db
  uuids_drawn :: nat

text \<open>
  Every method returns a string. \<open>Returned x\<close> is the string of a result \<open>x\<close>;
  \<open>Failed p e\<close> is \<^verbatim>\<open>f"Error: {p}: {e}"\<close>, written by the handler of the method;
  \<open>NotFoundError m\<close> is \<^verbatim>\<open>"Error: " + m\<close>, returned where a query found nothing.
\<close>

datatype 'a reply = Returned 'a | Failed string exn | NotFoundError string

definition ensure_initialized :: "neo4j_tools \<Rightarrow> exn + unit" where
  "ensure_initialized s =
     (if \<not> is_initialized s \<or> \<not> driver s
      then Inl (ValueError ''Neo4j connection not initialized. Call 'initialize_connection' first.'')
      else Inr ())"

definition initialize_connection :: "handshake \<Rightarrow> neo4j_tools \<Rightarrow> string reply \<times> neo4j_tools" where
  "initialize_connection h s =
     (case h of
        NoDriver e \<Rightarrow> (Failed ''Failed to initialize Neo4j connection'' e, s)
      | Unreachable e \<Rightarrow>
          (Failed ''Failed to initialize Neo4j connection'' e, s\<lparr>driver := True\<rparr>)
      | Connected \<Rightarrow>
          (case create_constraint (db s) of
             Inl e \<Rightarrow> (Failed ''Failed to initialize Neo4j connection'' e, s\<lparr>driver := True\<rparr>)
           | Inr d \<Rightarrow>
               (Returned ''Neo4j connection initialized successfully'',
                s\<lparr>driver := True, db := d, is_initialized := True\<rparr>)))"

text \<open>\<^verbatim>\<open>metadata or {}\<close>: \<^verbatim>\<open>None\<close> and the empty dict both give the empty dict.\<close>

definition metadata_or_empty :: "pydict option \<Rightarrow> pydict" where
  "metadata_or_empty metadata = (case metadata of None \<Rightarrow> [] | Some m \<Rightarrow> if m = [] then [] else m)"

definition add_thought ::
  "py_env \<Rightarrow> nat \<Rightarrow> string \<Rightarrow> string \<Rightarrow> pydict option \<Rightarrow> neo4j_tools \<Rightarrow> string reply \<times> neo4j_tools" where
  "add_thought env now content' thought_id metadata s =
     (case ensure_initialized s of
        Inl e \<Rightarrow> (Failed ''Failed to add thought'' e, s)
      | Inr _ \<Rightarrow>
          (let (tid, s1) =
                 (if thought_id = []
                  then (uuid4 env (uuids_drawn s), s\<lparr>uuids_drawn := Suc (uuids_drawn s)\<rparr>)
                  else (thought_id, s));
               metadata_str = dumps env (JObj (metadata_or_empty metadata))
           in case create_thought now tid content' metadata_str (db s1) of
                Inl e \<Rightarrow> (Failed ''Failed to add thought'' e, s1)
              | Inr d \<Rightarrow> (Returned tid, s1\<lparr>db := d\<rparr>)))"

text \<open>A call that leaves \<^verbatim>\<open>thought_id\<close> out takes the default of the signature.\<close>

definition add_thought_default ::
  "py_env \<Rightarrow> nat \<Rightarrow> string \<Rightarrow> pydict option \<Rightarrow> neo4j_tools \<Rightarrow> string reply \<times> neo4j_tools" where
  "add_thought_default env now content' metadata s = add_thought env now content' ''Thought'' metadata s"

text \<open>\<^verbatim>\<open>if properties is None: properties = {}\<close>.\<close>

definition props_or_empty :: "pydict option \<Rightarrow> pydict" where
  "props_or_empty properties' = (case properties' of None \<Rightarrow> [] | Some p \<Rightarrow> p)"

definition connect_thoughts ::
  "(graph_db \<Rightarrow> exn + (bool \<times> graph_db)) \<Rightarrow> string \<Rightarrow> string \<Rightarrow> string \<Rightarrow> real
     \<Rightarrow> pydict option \<Rightarrow> neo4j_tools \<Rightarrow> (string \<times> real) reply \<times> neo4j_tools" where
  "connect_thoughts beyond source_id target_id relationship_type weight' properties' s =
     (case ensure_initialized s of
        Inl e \<Rightarrow> (Failed ''Failed to connect thoughts'' e, s)
      | Inr _ \<Rightarrow>
          (let ps = props_or_empty properties'
           in case merge_relationship beyond source_id target_id relationship_type weight' ps
                     (db s) of
                Inl e \<Rightarrow> (Failed ''Failed to connect thoughts'' e, s)
              | Inr (found, d) \<Rightarrow>
                  (if found then (Returned (relationship_type, weight'), s\<lparr>db := d\<rparr>)
                   else (NotFoundError ''Failed to connect thoughts - one or both thoughts not found'',
                         s\<lparr>db := d\<rparr>))))"

text \<open>
  The dict built from a node by the three readers: \<^verbatim>\<open>metadata_json\<close> is parsed into
  \<^verbatim>\<open>metadata\<close> and deleted; when parsing raises \<^verbatim>\<open>JSONDecodeError\<close> or \<^verbatim>\<open>TypeError\<close>,
  \<^verbatim>\<open>metadata\<close> is the empty dict and \<^verbatim>\<open>metadata_json\<close> stays; any other exception
  leaves the inner handler and reaches the handler of the method.
\<close>

record thought_dict =
  d_id :: string
  d_content :: string
  d_timestamp :: nat
  d_metadata :: "json option"
  d_metadata_json :: "json_text option"

text \<open>\<^verbatim>\<open>except (json.JSONDecodeError, TypeError)\<close>.\<close>

fun caught :: "exn \<Rightarrow> bool" where
  "caught (JSONDecodeError m) = True"
| "caught (TypeError m) = True"
| "caught e = False"

definition thought_data :: "py_env \<Rightarrow> thought \<Rightarrow> exn + thought_dict" where
  "thought_data env n =
     (let t = \<lparr>d_id = node_id n, d_content = content n, d_timestamp = timestamp n,
               d_metadata = None, d_metadata_json = metadata_json n\<rparr>
      in case metadata_json n of
           None \<Rightarrow> Inr t
         | Some mj \<Rightarrow>
             (case loads env mj of
                Inr v \<Rightarrow> Inr (t\<lparr>d_metadata := Some v, d_metadata_json := None\<rparr>)
              | Inl e \<Rightarrow> if caught e then Inr (t\<lparr>d_metadata := Some (JObj [])\<rparr>) else Inl e))"

text \<open>The loop over the records of a result: the first exception ends it.\<close>

fun thoughts_data :: "py_env \<Rightarrow> thought list \<Rightarrow> exn + thought_dict list" where
  "thoughts_data env [] = Inr []"
| "thoughts_data env (n # ns) =
     (case thought_data env n of
        Inl e \<Rightarrow> Inl e
      | Inr t \<Rightarrow> (case thoughts_data env ns of Inl e \<Rightarrow> Inl e | Inr ts \<Rightarrow> Inr (t # ts)))"

definition get_thought :: "py_env \<Rightarrow> string \<Rightarrow> neo4j_tools \<Rightarrow> thought_dict reply \<times> neo4j_tools" where
  "get_thought env thought_id s =
     (case ensure_initialized s of
        Inl e \<Rightarrow> (Failed ''Failed to get thought'' e, s)
      | Inr _ \<Rightarrow>
          (case match_thought thought_id (db s) of
             Some n \<Rightarrow>
               (case thought_data env n of
                  Inr t \<Rightarrow> (Returned t, s)
                | Inl e \<Rightarrow> (Failed ''Failed to get thought'' e, s))
           | None \<Rightarrow> (NotFoundError (''Thought with ID '' @ quoted thought_id @ '' not found''), s)))"

definition search_thoughts ::
  "py_env \<Rightarrow> string \<Rightarrow> int \<Rightarrow> neo4j_tools \<Rightarrow> thought_dict list reply \<times> neo4j_tools" where
  "search_thoughts env query_text limit s =
     (case ensure_initialized s of
        Inl e \<Rightarrow> (Failed ''Failed to search thoughts'' e, s)
      | Inr _ \<Rightarrow>
          (case search_query query_text limit (db s) of
             Inl e \<Rightarrow> (Failed ''Failed to search thoughts'' e, s)
           | Inr ns \<Rightarrow>
               (case thoughts_data env ns of
                  Inr ts \<Rightarrow> (Returned ts, s)
                | Inl e \<Rightarrow> (Failed ''Failed to search thoughts'' e, s))))"

definition get_all_node_ids :: "neo4j_tools \<Rightarrow> string list reply \<times> neo4j_tools" where
  "get_all_node_ids s =
     (case ensure_initialized s of
        Inl e \<Rightarrow> (Failed ''Failed to retrieve thought node IDs'' e, s)
      | Inr _ \<Rightarrow> (Returned (all_ids_query (db s)), s))"

section \<open>The vector index: \<^verbatim>\<open>PineconeTools\<close>\<close>







section \<open>The knowledge base: \<^verbatim>\<open>LightRAGTool\<close>\<close>

subsection \<open>The library\<close>

text \<open>
  The tool keeps a \<^verbatim>\<open>LightRAG\<close> object and calls its methods. The library is not part of
  this repository: it is a record of functions over the state \<open>'kg\<close> of the object. A call
  takes that state and gives back the value returned or the exception raised, and the
  state it leaves. Results that the tool only logs are \<open>unit\<close>.
\<close>

record entity_data =
  e_description :: string
  e_entity_type :: string
  e_source_id :: string

record relation_data =
  r_description :: string
  r_keywords :: string
  r_weight :: real
  r_source_id :: string

text \<open>What \<^verbatim>\<open>aquery\<close> returns: a string, or a value of another type (named).\<close>

datatype response = Text string | NotText string

record info =
  graph_data :: "pydict option"
  vector_data :: "pydict option"

record 'kg lightrag =
  initialize_storages :: "'kg \<Rightarrow> (exn + unit) \<times> 'kg"
  initialize_pipeline_status :: "'kg \<Rightarrow> (exn + unit) \<times> 'kg"
  finalize_storages :: "'kg \<Rightarrow> (exn + unit) \<times> 'kg"
  ainsert :: "string \<Rightarrow> string option \<Rightarrow> string option \<Rightarrow> 'kg \<Rightarrow> (exn + unit) \<times> 'kg"
  aquery :: "string \<Rightarrow> string \<Rightarrow> int \<Rightarrow> 'kg \<Rightarrow> (exn + response) \<times> 'kg"
  acreate_entity :: "string \<Rightarrow> entity_data \<Rightarrow> 'kg \<Rightarrow> (exn + unit) \<times> 'kg"
  aedit_entity :: "string \<Rightarrow> (string \<times> string) list \<Rightarrow> bool \<Rightarrow> 'kg \<Rightarrow> (exn + unit) \<times> 'kg"
  adelete_by_entity :: "string \<Rightarrow> 'kg \<Rightarrow> (exn + unit) \<times> 'kg"
  acreate_relation :: "string \<Rightarrow> string \<Rightarrow> relation_data \<Rightarrow> 'kg \<Rightarrow> (exn + unit) \<times> 'kg"
  aedit_relation :: "string \<Rightarrow> string \<Rightarrow> pydict \<Rightarrow> 'kg \<Rightarrow> (exn + unit) \<times> 'kg"
  adelete_by_relation :: "string \<Rightarrow> string \<Rightarrow> 'kg \<Rightarrow> (exn + unit) \<times> 'kg"
  amerge_entities :: "string list \<Rightarrow> string \<Rightarrow> pydict option \<Rightarrow> 'kg \<Rightarrow> (exn + unit) \<times> 'kg"
  get_entity_info :: "string \<Rightarrow> 'kg \<Rightarrow> (exn + info option) \<times> 'kg"
  get_relation_info :: "string \<Rightarrow> string \<Rightarrow> 'kg \<Rightarrow> (exn + info option) \<times> 'kg"
  adelete_by_doc_id :: "string \<Rightarrow> 'kg \<Rightarrow> (exn + unit) \<times> 'kg"

subsection \<open>The tool object\<close>

text \<open>
  \<^verbatim>\<open>__init__\<close> only annotates \<^verbatim>\<open>self.rag_instance: Optional[LightRAG]\<close>; the attribute is
  assigned inside the \<^verbatim>\<open>try\<close> block (the object, or \<^verbatim>\<open>None\<close> in its handler), which the
  two early returns (library not importable, no API key) never reach. So the attribute is
  unbound, or bound to \<^verbatim>\<open>None\<close> or to the object. The flag \<^verbatim>\<open>is_initialized\<close> is called
  \<open>is_initialized'\<close>.
\<close>

datatype 'kg attribute = Unbound | Bound "'kg option"

record 'kg rag_tool =
  rag_instance :: "'kg attribute"
  is_initialized' :: bool
  default_top_k :: int

text \<open>A method either raises or returns; both leave a tool object.\<close>

type_synonym ('a, 'kg) outcome = "(exn + 'a) \<times> 'kg rag_tool"

definition no_attribute :: exn where
  "no_attribute = AttributeError
     (quoted ''LightRAGTool'' @ '' object has no attribute '' @ quoted ''rag_instance'')"

definition not_ready :: exn where
  "not_ready = RuntimeError
     ''LightRAG instance is not available or not initialized. Call `await tool.initialize()` first.''"

text \<open>\<^verbatim>\<open>_ensure_rag_ready\<close>: reading the attribute comes first.\<close>

definition ensure_rag_ready :: "'kg rag_tool \<Rightarrow> exn + 'kg" where
  "ensure_rag_ready t =
     (case rag_instance t of
        Unbound \<Rightarrow> Inl no_attribute
      | Bound None \<Rightarrow> Inl not_ready
      | Bound (Some kg) \<Rightarrow> if \<not> is_initialized' t then Inl not_ready else Inr kg)"

definition with_kg :: "'kg rag_tool \<Rightarrow> 'kg \<Rightarrow> 'kg rag_tool" where
  "with_kg t kg = t\<lparr>rag_instance := Bound (Some kg)\<rparr>"

definition initialize :: "'kg lightrag \<Rightarrow> 'kg rag_tool \<Rightarrow> (string, 'kg) outcome" where
  "initialize L t =
     (if is_initialized' t then (Inr ''LightRAGTool is already initialized.'', t)
      else case rag_instance t of
        Unbound \<Rightarrow> (Inl no_attribute, t)
      | Bound None \<Rightarrow>
          (Inr ''Error: Cannot initialize, LightRAG instance was not created during instantiation.'', t)
      | Bound (Some kg) \<Rightarrow>
          (case initialize_storages L kg of
             (Inl e, kg1) \<Rightarrow>
               (Inr (''Error during LightRAGTool async initialization: '' @ str_exn e),
                (with_kg t kg1)\<lparr>is_initialized' := False\<rparr>)
           | (Inr _, kg1) \<Rightarrow>
               (case initialize_pipeline_status L kg1 of
                  (Inl e, kg2) \<Rightarrow>
                    (Inr (''Error during LightRAGTool async initialization: '' @ str_exn e),
                     (with_kg t kg2)\<lparr>is_initialized' := False\<rparr>)
                | (Inr _, kg2) \<Rightarrow>
                    (Inr ''Initialization successful.'',
                     (with_kg t kg2)\<lparr>is_initialized' := True\<rparr>))))"

definition finalize :: "'kg lightrag \<Rightarrow> 'kg rag_tool \<Rightarrow> (string, 'kg) outcome" where
  "finalize L t =
     (if \<not> is_initialized' t
      then (Inr ''LightRAGTool was not initialized, skipping finalization.'', t)
      else case rag_instance t of
        Unbound \<Rightarrow> (Inl no_attribute, t)
      | Bound None \<Rightarrow> (Inr ''Error: Cannot finalize, LightRAG instance is missing.'', t)
      | Bound (Some kg) \<Rightarrow>
          (case finalize_storages L kg of
             (Inl e, kg1) \<Rightarrow>
               (Inr (''Error during LightRAGTool async finalization: '' @ str_exn e),
                (with_kg t kg1)\<lparr>is_initialized' := False\<rparr>)
           | (Inr _, kg1) \<Rightarrow>
               (Inr ''Finalization successful.'', (with_kg t kg1)\<lparr>is_initialized' := False\<rparr>)))"

subsection \<open>The data operations\<close>

text \<open>
  Arguments have the types of the signatures, so the \<^verbatim>\<open>isinstance\<close> tests hold and only the
  emptiness tests remain. \<^verbatim>\<open>x or d\<close> on an optional string is \<open>or_default\<close>. The two
  shapes of handler are \<open>any_error\<close> (\<^verbatim>\<open>except Exception\<close> alone) and \<open>value_error_or\<close>
  (\<^verbatim>\<open>except ValueError\<close> first).
\<close>

definition or_default :: "string option \<Rightarrow> string \<Rightarrow> string" where
  "or_default x d = (case x of None \<Rightarrow> d | Some v \<Rightarrow> if v = [] then d else v)"

definition any_error :: "string \<Rightarrow> exn \<Rightarrow> string" where
  "any_error p e = p @ str_exn e"

fun value_error_or :: "string \<Rightarrow> exn \<Rightarrow> string" where
  "value_error_or p (ValueError m) = ''Error: '' @ m"
| "value_error_or p (JSONDecodeError m) = ''Error: '' @ m"
| "value_error_or p e = p @ str_exn e"

text \<open>\<^verbatim>\<open>'{a}' -> '{b}'\<close> and \<^verbatim>\<open>'{a}'->'{b}'\<close> in the messages about relations.\<close>

definition arrow :: "string \<Rightarrow> string \<Rightarrow> string" where
  "arrow a b = quoted a @ '' -> '' @ quoted b"

definition arrow_tight :: "string \<Rightarrow> string \<Rightarrow> string" where
  "arrow_tight a b = quoted a @ ''->'' @ quoted b"

text \<open>
  A list of strings inside an f-string is its \<^verbatim>\<open>repr\<close>. The \<^verbatim>\<open>repr\<close> of a string stands
  between single quotes, or between double quotes when the string has a single quote and
  no double quote; the backslash and the quote in use are escaped, as are the control
  characters. A \<open>char\<close> above 0x7f belongs to the UTF-8 form of a printable character.
\<close>

definition hex_digit :: "nat \<Rightarrow> char" where
  "hex_digit n = ''0123456789abcdef'' ! (n mod 16)"

definition repr_char :: "char \<Rightarrow> char \<Rightarrow> string" where
  "repr_char q c =
     (if c = CHR 0x5C then [CHR 0x5C, CHR 0x5C]
      else if c = q then [CHR 0x5C, q]
      else if c = CHR 0x0A then [CHR 0x5C, CHR ''n'']
      else if c = CHR 0x0D then [CHR 0x5C, CHR ''r'']
      else if c = CHR 0x09 then [CHR 0x5C, CHR ''t'']
      else if (of_char c :: nat) < 32 \<or> (of_char c :: nat) = 127
      then [CHR 0x5C, CHR ''x'', hex_digit (of_char c div 16), hex_digit (of_char c)]
      else [c])"

definition repr_str :: "string \<Rightarrow> string" where
  "repr_str x =
     (let q = (if CHR 0x27 \<in> set x \<and> CHR 0x22 \<notin> set x then CHR 0x22 else CHR 0x27)
      in [q] @ concat (map (repr_char q) x) @ [q])"

fun comma_separated :: "string list \<Rightarrow> string" where
  "comma_separated [] = []"
| "comma_separated [x] = repr_str x"
| "comma_separated (x # y # ys) = repr_str x @ '', '' @ comma_separated (y # ys)"

definition repr_list :: "string list \<Rightarrow> string" where
  "repr_list xs = ''['' @ comma_separated xs @ '']''"

definition store_text ::
  "'kg lightrag \<Rightarrow> string \<Rightarrow> string option \<Rightarrow> string option \<Rightarrow> 'kg rag_tool \<Rightarrow> (string, 'kg) outcome" where
  "store_text L text_content document_id file_path t =
     (case ensure_rag_ready t of
        Inl e \<Rightarrow> (Inl e, t)
      | Inr kg \<Rightarrow>
          if text_content = []
          then (Inr ''Error: Invalid input. 'text_content' must be a non-empty string.'', t)
          else
            (case ainsert L text_content document_id file_path kg of
               (Inr _, kg1) \<Rightarrow>
                 (Inr (''Text content (ID: '' @ or_default document_id ''auto-generated''
                       @ '') enqueued for processing in LightRAG.''), with_kg t kg1)
             | (Inl e, kg1) \<Rightarrow>
                 (Inr (any_error ''Error storing text into LightRAG: '' e), with_kg t kg1)))"

text \<open>\<^verbatim>\<open>_retrieve\<close>: the mode is the string it is given.\<close>

definition retrieve ::
  "'kg lightrag \<Rightarrow> string \<Rightarrow> string \<Rightarrow> int option \<Rightarrow> 'kg rag_tool \<Rightarrow> (string, 'kg) outcome" where
  "retrieve L query mode top_k t =
     (case ensure_rag_ready t of
        Inl e \<Rightarrow> (Inl e, t)
      | Inr kg \<Rightarrow>
          if query = []
          then (Inr ''Error: Invalid input. 'query' must be a non-empty string.'', t)
          else
            (let k = (case top_k of Some n \<Rightarrow> n | None \<Rightarrow> default_top_k t)
             in case aquery L query mode k kg of
                  (Inr (Text r), kg1) \<Rightarrow>
                    (Inr (if r \<noteq> [] then r
                          else ''No results or response generated for mode '' @ quoted mode @ ''.''),
                     with_kg t kg1)
                | (Inr (NotText ty), kg1) \<Rightarrow>
                    (Inr (''Received unexpected response type ('' @ ty @ '') for mode ''
                          @ quoted mode @ ''. Needs handling.''), with_kg t kg1)
                | (Inl e, kg1) \<Rightarrow>
                    (Inr (any_error (''Error during '' @ quoted mode @ '' retrieval: '') e),
                     with_kg t kg1)))"

definition retrieve_naive ::
  "'kg lightrag \<Rightarrow> string \<Rightarrow> int option \<Rightarrow> 'kg rag_tool \<Rightarrow> (string, 'kg) outcome" where
  "retrieve_naive L query top_k t = retrieve L query ''naive'' top_k t"

definition retrieve_local_kg ::
  "'kg lightrag \<Rightarrow> string \<Rightarrow> int option \<Rightarrow> 'kg rag_tool \<Rightarrow> (string, 'kg) outcome" where
  "retrieve_local_kg L query top_k t = retrieve L query ''local'' top_k t"

definition retrieve_global_kg ::
  "'kg lightrag \<Rightarrow> string \<Rightarrow> int option \<Rightarrow> 'kg rag_tool \<Rightarrow> (string, 'kg) outcome" where
  "retrieve_global_kg L query top_k t = retrieve L query ''global'' top_k t"

definition retrieve_hybrid ::
  "'kg lightrag \<Rightarrow> string \<Rightarrow> int option \<Rightarrow> 'kg rag_tool \<Rightarrow> (string, 'kg) outcome" where
  "retrieve_hybrid L query top_k t = retrieve L query ''hybrid'' top_k t"

definition retrieve_mix_kg_vector ::
  "'kg lightrag \<Rightarrow> string \<Rightarrow> int option \<Rightarrow> 'kg rag_tool \<Rightarrow> (string, 'kg) outcome" where
  "retrieve_mix_kg_vector L query top_k t = retrieve L query ''mix'' top_k t"

definition create_entity ::
  "'kg lightrag \<Rightarrow> string \<Rightarrow> string option \<Rightarrow> string option \<Rightarrow> string \<Rightarrow> 'kg rag_tool
     \<Rightarrow> (string, 'kg) outcome" where
  "create_entity L entity_name description entity_type source_id t =
     (case ensure_rag_ready t of
        Inl e \<Rightarrow> (Inl e, t)
      | Inr kg \<Rightarrow>
          if entity_name = []
          then (Inr ''Error: Invalid input. 'entity_name' must be a non-empty string.'', t)
          else
            (let entity_data = \<lparr>e_description = or_default description [],
                                 e_entity_type = or_default entity_type ''UNKNOWN'',
                                 e_source_id = source_id\<rparr>
             in case acreate_entity L entity_name entity_data kg of
                  (Inr _, kg1) \<Rightarrow>
                    (Inr (''Entity '' @ quoted entity_name @ '' created successfully.''), with_kg t kg1)
                | (Inl e, kg1) \<Rightarrow>
                    (Inr (value_error_or (''Error creating entity '' @ quoted entity_name @ '': '') e),
                     with_kg t kg1)))"

text \<open>The values of \<^verbatim>\<open>updates\<close> in \<^verbatim>\<open>edit_entity\<close> are strings, as its docstring lists them.\<close>

definition edit_entity ::
  "'kg lightrag \<Rightarrow> string \<Rightarrow> (string \<times> string) list \<Rightarrow> bool \<Rightarrow> 'kg rag_tool \<Rightarrow> (string, 'kg) outcome" where
  "edit_entity L entity_name updates allow_rename t =
     (case ensure_rag_ready t of
        Inl e \<Rightarrow> (Inl e, t)
      | Inr kg \<Rightarrow>
          if entity_name = []
          then (Inr ''Error: Invalid input. 'entity_name' must be a non-empty string.'', t)
          else if updates = []
          then (Inr ''Error: Invalid input. 'updates' must be a non-empty dictionary.'', t)
          else
            (let new_name = (case map_of updates ''entity_name'' of None \<Rightarrow> entity_name | Some n \<Rightarrow> n)
             in case aedit_entity L entity_name updates allow_rename kg of
                  (Inr _, kg1) \<Rightarrow>
                    (Inr (''Entity '' @ quoted entity_name @ '' ''
                          @ (if new_name \<noteq> entity_name then ''renamed to'' else ''updated'')
                          @ '' '' @ quoted new_name @ '' successfully.''), with_kg t kg1)
                | (Inl e, kg1) \<Rightarrow>
                    (Inr (value_error_or (''Error editing entity '' @ quoted entity_name @ '': '') e),
                     with_kg t kg1)))"

definition delete_entity :: "'kg lightrag \<Rightarrow> string \<Rightarrow> 'kg rag_tool \<Rightarrow> (string, 'kg) outcome" where
  "delete_entity L entity_name t =
     (case ensure_rag_ready t of
        Inl e \<Rightarrow> (Inl e, t)
      | Inr kg \<Rightarrow>
          if entity_name = []
          then (Inr ''Error: Invalid input. 'entity_name' must be a non-empty string.'', t)
          else
            (case adelete_by_entity L entity_name kg of
               (Inr _, kg1) \<Rightarrow>
                 (Inr (''Entity '' @ quoted entity_name @ '' and its relationships deleted successfully.''),
                  with_kg t kg1)
             | (Inl e, kg1) \<Rightarrow>
                 (Inr (any_error (''Error deleting entity '' @ quoted entity_name @ '': '') e),
                  with_kg t kg1)))"

definition create_relation ::
  "'kg lightrag \<Rightarrow> string \<Rightarrow> string \<Rightarrow> string option \<Rightarrow> string option \<Rightarrow> real \<Rightarrow> string
     \<Rightarrow> 'kg rag_tool \<Rightarrow> (string, 'kg) outcome" where
  "create_relation L source_entity target_entity description keywords weight' source_id t =
     (case ensure_rag_ready t of
        Inl e \<Rightarrow> (Inl e, t)
      | Inr kg \<Rightarrow>
          if source_entity = [] \<or> target_entity = []
          then (Inr ''Error: Both 'source_entity' and 'target_entity' must be non-empty strings.'', t)
          else
            (let relation_data = \<lparr>r_description = or_default description [],
                                   r_keywords = or_default keywords [],
                                   r_weight = weight',
                                   r_source_id = source_id\<rparr>
             in case acreate_relation L source_entity target_entity relation_data kg of
                  (Inr _, kg1) \<Rightarrow>
                    (Inr (''Relation '' @ arrow source_entity target_entity @ '' created successfully.''),
                     with_kg t kg1)
                | (Inl e, kg1) \<Rightarrow>
                    (Inr (value_error_or
                            (''Error creating relation '' @ arrow_tight source_entity target_entity @ '': '') e),
                     with_kg t kg1)))"

definition edit_relation ::
  "'kg lightrag \<Rightarrow> string \<Rightarrow> string \<Rightarrow> pydict \<Rightarrow> 'kg rag_tool \<Rightarrow> (string, 'kg) outcome" where
  "edit_relation L source_entity target_entity updates t =
     (case ensure_rag_ready t of
        Inl e \<Rightarrow> (Inl e, t)
      | Inr kg \<Rightarrow>
          if source_entity = [] \<or> target_entity = []
          then (Inr ''Error: Both 'source_entity' and 'target_entity' must be non-empty strings.'', t)
          else if updates = []
          then (Inr ''Error: Invalid input. 'updates' must be a non-empty dictionary.'', t)
          else
            (case aedit_relation L source_entity target_entity updates kg of
               (Inr _, kg1) \<Rightarrow>
                 (Inr (''Relation '' @ arrow source_entity target_entity @ '' updated successfully.''),
                  with_kg t kg1)
             | (Inl e, kg1) \<Rightarrow>
                 (Inr (value_error_or
                         (''Error editing relation '' @ arrow_tight source_entity target_entity @ '': '') e),
                  with_kg t kg1)))"

definition delete_relation ::
  "'kg lightrag \<Rightarrow> string \<Rightarrow> string \<Rightarrow> 'kg rag_tool \<Rightarrow> (string, 'kg) outcome" where
  "delete_relation L source_entity target_entity t =
     (case ensure_rag_ready t of
        Inl e \<Rightarrow> (Inl e, t)
      | Inr kg \<Rightarrow>
          if source_entity = [] \<or> target_entity = []
          then (Inr ''Error: Both 'source_entity' and 'target_entity' must be non-empty strings.'', t)
          else
            (case adelete_by_relation L source_entity target_entity kg of
               (Inr _, kg1) \<Rightarrow>
                 (Inr (''Relation '' @ arrow source_entity target_entity
                       @ '' deleted successfully (if it existed).''), with_kg t kg1)
             | (Inl e, kg1) \<Rightarrow>
                 (Inr (any_error
                         (''Error deleting relation '' @ arrow_tight source_entity target_entity @ '': '') e),
                  with_kg t kg1)))"

definition merge_entities ::
  "'kg lightrag \<Rightarrow> string list \<Rightarrow> string \<Rightarrow> pydict option \<Rightarrow> 'kg rag_tool \<Rightarrow> (string, 'kg) outcome" where
  "merge_entities L source_entities target_entity target_data_override t =
     (case ensure_rag_ready t of
        Inl e \<Rightarrow> (Inl e, t)
      | Inr kg \<Rightarrow>
          if source_entities = []
          then (Inr ''Error: 'source_entities' must be a non-empty list of strings.'', t)
          else if target_entity = []
          then (Inr ''Error: 'target_entity' must be a non-empty string.'', t)
          else if target_entity \<in> set source_entities \<and> length source_entities = 1
          then (Inr (''Error: Cannot merge entity '' @ quoted target_entity @ '' into itself.''), t)
          else
            (case amerge_entities L source_entities target_entity target_data_override kg of
               (Inr _, kg1) \<Rightarrow>
                 (Inr (''Entities '' @ repr_list source_entities @ '' merged successfully into ''
                       @ quoted target_entity @ ''.''), with_kg t kg1)
             | (Inl e, kg1) \<Rightarrow>
                 (Inr (value_error_or
                         (''Error merging entities into '' @ quoted target_entity @ '': '') e),
                  with_kg t kg1)))"

text \<open>
  \<^verbatim>\<open>not details or not details.get("graph_data")\<close>: nothing came back, or no graph data, or
  empty graph data.
\<close>

definition no_graph_data :: "info option \<Rightarrow> bool" where
  "no_graph_data details =
     (case details of
        None \<Rightarrow> True
      | Some i \<Rightarrow> (case graph_data i of None \<Rightarrow> True | Some g \<Rightarrow> g = []))"

definition get_entity_details ::
  "'kg lightrag \<Rightarrow> string \<Rightarrow> 'kg rag_tool \<Rightarrow> (string + info, 'kg) outcome" where
  "get_entity_details L entity_name t =
     (case ensure_rag_ready t of
        Inl e \<Rightarrow> (Inl e, t)
      | Inr kg \<Rightarrow>
          if entity_name = []
          then (Inr (Inl ''Error: Invalid input. 'entity_name' must be a non-empty string.''), t)
          else
            (case get_entity_info L entity_name kg of
               (Inr details, kg1) \<Rightarrow>
                 (case details of
                    Some i \<Rightarrow>
                      if no_graph_data details
                      then (Inr (Inl (''Entity '' @ quoted entity_name @ '' not found.'')), with_kg t kg1)
                      else (Inr (Inr i), with_kg t kg1)
                  | None \<Rightarrow> (Inr (Inl (''Entity '' @ quoted entity_name @ '' not found.'')), with_kg t kg1))
             | (Inl e, kg1) \<Rightarrow>
                 (Inr (Inl (any_error
                              (''Error getting details for entity '' @ quoted entity_name @ '': '') e)),
                  with_kg t kg1)))"

definition get_relation_details ::
  "'kg lightrag \<Rightarrow> string \<Rightarrow> string \<Rightarrow> 'kg rag_tool \<Rightarrow> (string + info, 'kg) outcome" where
  "get_relation_details L source_entity target_entity t =
     (case ensure_rag_ready t of
        Inl e \<Rightarrow> (Inl e, t)
      | Inr kg \<Rightarrow>
          if source_entity = [] \<or> target_entity = []
          then (Inr (Inl ''Error: Both 'source_entity' and 'target_entity' must be non-empty strings.''), t)
          else
            (case get_relation_info L source_entity target_entity kg of
               (Inr details, kg1) \<Rightarrow>
                 (case details of
                    Some i \<Rightarrow>
                      if no_graph_data details
                      then (Inr (Inl (''Relation '' @ arrow source_entity target_entity @ '' not found.'')),
                            with_kg t kg1)
                      else (Inr (Inr i), with_kg t kg1)
                  | None \<Rightarrow>
                      (Inr (Inl (''Relation '' @ arrow source_entity target_entity @ '' not found.'')),
                       with_kg t kg1))
             | (Inl e, kg1) \<Rightarrow>
                 (Inr (Inl (any_error
                              (''Error getting details for relation ''
                               @ arrow_tight source_entity target_entity @ '': '') e)),
                  with_kg t kg1)))"

definition delete_document :: "'kg lightrag \<Rightarrow> string \<Rightarrow> 'kg rag_tool \<Rightarrow> (string, 'kg) outcome" where
  "delete_document L document_id t =
     (case ensure_rag_ready t of
        Inl e \<Rightarrow> (Inl e, t)
      | Inr kg \<Rightarrow>
          if document_id = []
          then (Inr ''Error: Invalid input. 'document_id' must be a non-empty string.'', t)
          else
            (case adelete_by_doc_id L document_id kg of
               (Inr _, kg1) \<Rightarrow>
                 (Inr (''Document '' @ quoted document_id
                       @ '' and its related data deleted successfully (if it existed).''), with_kg t kg1)
             | (Inl e, kg1) \<Rightarrow>
                 (Inr (any_error (''Error deleting document '' @ quoted document_id @ '': '') e),
                  with_kg t kg1)))"

subsection \<open>Construction, and the operations as one type\<close>

text \<open>
  \<^verbatim>\<open>__init__\<close>: \<open>available\<close> is \<^verbatim>\<open>LIGHTRAG_AVAILABLE\<close>, \<open>openai_api_key\<close> the key of the
  configuration (\<^verbatim>\<open>None\<close> when the environment has none), \<open>instantiate\<close> what
  \<^verbatim>\<open>LightRAG(...)\<close> does: raise, or build the object.
\<close>

definition init :: "bool \<Rightarrow> string option \<Rightarrow> exn + 'kg \<Rightarrow> int \<Rightarrow> 'kg rag_tool" where
  "init available openai_api_key instantiate top_k =
     (let t = \<lparr>rag_instance = Unbound, is_initialized' = False, default_top_k = top_k\<rparr>
      in if \<not> available then t
         else if or_default openai_api_key [] = [] then t
         else (case instantiate of
                 Inr kg \<Rightarrow> t\<lparr>rag_instance := Bound (Some kg)\<rparr>
               | Inl e \<Rightarrow> t\<lparr>rag_instance := Bound None\<rparr>))"

text \<open>
  The data operations that \<^verbatim>\<open>__init__\<close> registers, as the values of one type, so that a
  statement can range over all of them. The five retrieval methods are \<open>Retrieve\<close> with
  their mode.
\<close>

datatype rag_call =
    StoreText string "string option" "string option"
  | Retrieve string string "int option"
  | CreateEntity string "string option" "string option" string
  | EditEntity string "(string \<times> string) list" bool
  | DeleteEntity string
  | CreateRelation string string "string option" "string option" real string
  | EditRelation string string pydict
  | DeleteRelation string string
  | MergeEntities "string list" string "pydict option"
  | GetEntityDetails string
  | GetRelationDetails string string
  | DeleteDocument string

definition as_text :: "(string, 'kg) outcome \<Rightarrow> (string + info, 'kg) outcome" where
  "as_text r = (case r of (Inl e, t) \<Rightarrow> (Inl e, t) | (Inr m, t) \<Rightarrow> (Inr (Inl m), t))"

fun run :: "'kg lightrag \<Rightarrow> rag_call \<Rightarrow> 'kg rag_tool \<Rightarrow> (string + info, 'kg) outcome" where
  "run L (StoreText c i f) t = as_text (store_text L c i f t)"
| "run L (Retrieve q m k) t = as_text (retrieve L q m k t)"
| "run L (CreateEntity n d ty s) t = as_text (create_entity L n d ty s t)"
| "run L (EditEntity n u r) t = as_text (edit_entity L n u r t)"
| "run L (DeleteEntity n) t = as_text (delete_entity L n t)"
| "run L (CreateRelation a b d k w s) t = as_text (create_relation L a b d k w s t)"
| "run L (EditRelation a b u) t = as_text (edit_relation L a b u t)"
| "run L (DeleteRelation a b) t = as_text (delete_relation L a b t)"
| "run L (MergeEntities ss g ov) t = as_text (merge_entities L ss g ov t)"
| "run L (GetEntityDetails n) t = get_entity_details L n t"
| "run L (GetRelationDetails a b) t = get_relation_details L a b t"
| "run L (DeleteDocument i) t = as_text (delete_document L i t)"

subsection \<open>A library to run the tool against\<close>

text \<open>
  A small library in memory, used where a statement about the tool is evaluated: entities
  and relations by name, the texts inserted. It refuses what the handlers of the tool
  expect to be refused (an entity that exists, a relation whose end is missing or that
  exists), answers a query from the texts, and knows the five modes of the tool and the
  mode \<^verbatim>\<open>bypass\<close>, which asks the language model alone.
\<close>

record kg_store =
  entities :: "(string \<times> entity_data) list"
  relations :: "((string \<times> string) \<times> relation_data) list"
  texts :: "string list"

definition has_entity :: "kg_store \<Rightarrow> string \<Rightarrow> bool" where
  "has_entity kg n = (n \<in> set (map fst (entities kg)))"

definition has_relation :: "kg_store \<Rightarrow> string \<Rightarrow> string \<Rightarrow> bool" where
  "has_relation kg a b = ((a, b) \<in> set (map fst (relations kg)))"

definition mem_create_entity :: "string \<Rightarrow> entity_data \<Rightarrow> kg_store \<Rightarrow> (exn + unit) \<times> kg_store" where
  "mem_create_entity n d kg =
     (if has_entity kg n then (Inl (ValueError (''Entity '' @ quoted n @ '' already exists'')), kg)
      else (Inr (), kg\<lparr>entities := entities kg @ [(n, d)]\<rparr>))"

definition mem_create_relation ::
  "string \<Rightarrow> string \<Rightarrow> relation_data \<Rightarrow> kg_store \<Rightarrow> (exn + unit) \<times> kg_store" where
  "mem_create_relation a b d kg =
     (if \<not> has_entity kg a then (Inl (ValueError (''Source entity '' @ quoted a @ '' does not exist'')), kg)
      else if \<not> has_entity kg b
      then (Inl (ValueError (''Target entity '' @ quoted b @ '' does not exist'')), kg)
      else if has_relation kg a b
      then (Inl (ValueError (''Relation from '' @ quoted a @ '' to '' @ quoted b @ '' already exists'')), kg)
      else (Inr (), kg\<lparr>relations := relations kg @ [((a, b), d)]\<rparr>))"

definition mem_query :: "string \<Rightarrow> string \<Rightarrow> int \<Rightarrow> kg_store \<Rightarrow> (exn + response) \<times> kg_store" where
  "mem_query q mode k kg =
     (if mode \<in> set [''naive'', ''local'', ''global'', ''hybrid'', ''mix'']
      then (Inr (Text (concat (take (nat k) (texts kg)))), kg)
      else if mode = ''bypass'' then (Inr (Text (''LLM: '' @ q)), kg)
      else (Inl (ValueError (''Unknown mode '' @ mode)), kg))"

definition mem_rag :: "kg_store lightrag" where
  "mem_rag =
     \<lparr>initialize_storages = (\<lambda>kg. (Inr (), kg)),
      initialize_pipeline_status = (\<lambda>kg. (Inr (), kg)),
      finalize_storages = (\<lambda>kg. (Inr (), kg)),
      ainsert = (\<lambda>c i f kg. (Inr (), kg\<lparr>texts := texts kg @ [c]\<rparr>)),
      aquery = mem_query,
      acreate_entity = mem_create_entity,
      aedit_entity = (\<lambda>n u r kg. (Inr (), kg)),
      adelete_by_entity = (\<lambda>n kg. (Inr (), kg\<lparr>entities := filter (\<lambda>x. fst x \<noteq> n) (entities kg)\<rparr>)),
      acreate_relation = mem_create_relation,
      aedit_relation = (\<lambda>a b u kg. (Inr (), kg)),
      adelete_by_relation = (\<lambda>a b kg. (Inr (), kg\<lparr>relations := filter (\<lambda>x. fst x \<noteq> (a, b)) (relations kg)\<rparr>)),
      amerge_entities = (\<lambda>ss g ov kg. (Inr (), kg)),
      get_entity_info = (\<lambda>n kg. (Inr None, kg)),
      get_relation_info = (\<lambda>a b kg. (Inr None, kg)),
      adelete_by_doc_id = (\<lambda>i kg. (Inr (), kg))\<rparr>"

definition empty_kg :: kg_store where
  "empty_kg = \<lparr>entities = [], relations = [], texts = []\<rparr>"

subsection \<open>The graph store of the specification\<close>

text \<open>
  Modelled from the spec: \<^verbatim>\<open>create_node\<close> of the Graph Store (section 4.2), which
  \<^verbatim>\<open>create_entity\<close> reaches as \<^verbatim>\<open>acreate_entity\<close> of the LightRAG library; the library is
  not among the sources. The specification: \<^verbatim>\<open>create_node(id, attrs)\<close> fails with
  \<^verbatim>\<open>AlreadyExists\<close> if the id is present. The failure is raised as the \<^verbatim>\<open>ValueError\<close> that
  the handler of \<^verbatim>\<open>create_entity\<close> is written for, its text the kind and the name.
\<close>

definition create_node :: "string \<Rightarrow> entity_data \<Rightarrow> kg_store \<Rightarrow> (exn + unit) \<times> kg_store" where
  "create_node n attrs g =
     (if has_entity g n then (Inl (ValueError (''AlreadyExists: '' @ quoted n)), g)
      else (Inr (), g\<lparr>entities := entities g @ [(n, attrs)]\<rparr>))"

text \<open>
  Modelled from the spec: \<^verbatim>\<open>create_edge\<close> of the Graph Store (section 4.2), which
  \<^verbatim>\<open>create_relation\<close> reaches as \<^verbatim>\<open>acreate_relation\<close> of the LightRAG library; the library
  is not among the sources. The specification: \<^verbatim>\<open>create_edge(src, dst, type, attrs)\<close> fails
  with \<^verbatim>\<open>NotFound\<close> if either endpoint is absent, and merges (upserts) if an identical
  (src, dst, type) edge exists. The type of a relation is its keywords. The failure is
  raised as the \<^verbatim>\<open>ValueError\<close> that the handler of \<^verbatim>\<open>create_relation\<close> is written for, its
  text the kind and the name of the first endpoint that is absent.
\<close>

definition create_edge ::
  "string \<Rightarrow> string \<Rightarrow> relation_data \<Rightarrow> kg_store \<Rightarrow> (exn + unit) \<times> kg_store" where
  "create_edge a b attrs g =
     (if \<not> has_entity g a then (Inl (ValueError (''NotFound: '' @ quoted a)), g)
      else if \<not> has_entity g b then (Inl (ValueError (''NotFound: '' @ quoted b)), g)
      else (Inr (),
            g\<lparr>relations :=
               filter (\<lambda>x. \<not> (fst x = (a, b) \<and> r_keywords (snd x) = r_keywords attrs)) (relations g)
               @ [((a, b), attrs)]\<rparr>))"

text \<open>
  Modelled from the spec: the LightRAG library as the tool reaches the Graph Store through
  it; the library is not among the sources. Its \<^verbatim>\<open>acreate_entity\<close> is \<^verbatim>\<open>create_node\<close>
  and its \<^verbatim>\<open>acreate_relation\<close> is \<^verbatim>\<open>create_edge\<close>; every other call is that of the
  library \<open>L\<close> it is built over, of which nothing is said.
\<close>

definition over_graph_store :: "kg_store lightrag \<Rightarrow> kg_store lightrag" where
  "over_graph_store L = L\<lparr>acreate_entity := create_node, acreate_relation := create_edge\<rparr>"

section \<open>States and values to evaluate on\<close>

text \<open>Both conditions of \<^verbatim>\<open>_ensure_initialized\<close> hold.\<close>

definition initialized :: "neo4j_tools \<Rightarrow> bool" where
  "initialized s = (is_initialized s \<and> driver s)"

text \<open>
  A node that the readers turn into a dict: it has no \<^verbatim>\<open>metadata_json\<close>, or
  \<^verbatim>\<open>json.loads\<close> returns on the text, or raises what the inner handler catches.
\<close>

definition readable :: "py_env \<Rightarrow> thought \<Rightarrow> bool" where
  "readable env n =
     (case metadata_json n of
        None \<Rightarrow> True
      | Some mj \<Rightarrow> (case loads env mj of Inr v \<Rightarrow> True | Inl e \<Rightarrow> caught e))"

text \<open>An environment: identifiers that are all different, and the \<^verbatim>\<open>json\<close> module.\<close>

definition sample_env :: py_env where
  "sample_env = python_json (\<lambda>n. ''uuid'' @ replicate n (CHR ''+''))"

text \<open>
  The attributes as \<^verbatim>\<open>Neo4jThoughtTools.__init__\<close> sets them before it calls
  \<^verbatim>\<open>initialize_connection\<close>, over an empty database, and the tool after that call met a
  server.
\<close>

definition empty_db :: graph_db where
  "empty_db = \<lparr>thought_id_unique = False, nodes = [], relationships = []\<rparr>"

definition new_tools :: neo4j_tools where
  "new_tools = \<lparr>driver = False, is_initialized = False, db = empty_db, uuids_drawn = 0\<rparr>"

definition connected_tools :: neo4j_tools where
  "connected_tools = snd (initialize_connection Connected new_tools)"

text \<open>A \<^verbatim>\<open>LightRAGTool\<close> built with a key over the empty store, after \<^verbatim>\<open>initialize()\<close>.\<close>

definition ready_tool :: "kg_store rag_tool" where
  "ready_tool = snd (initialize mem_rag (init True (Some ''sk-key'') (Inr empty_kg) 5))"



text \<open>The thought graph after two thoughts \<^verbatim>\<open>a\<close> and \<^verbatim>\<open>b\<close> were added, at times 1 and 2.\<close>

definition one_thought :: neo4j_tools where
  "one_thought = snd (add_thought sample_env 1 ''The sky is blue'' ''a'' None connected_tools)"

definition two_thoughts :: neo4j_tools where
  "two_thoughts = snd (add_thought sample_env 2 ''The sea is blue'' ''b'' None one_thought)"



definition nested_tools :: neo4j_tools where
  "nested_tools =
     connected_tools\<lparr>db := (db connected_tools)\<lparr>nodes :=
       [\<lparr>node_id = ''n'', content = ''Grass is green'', timestamp = 3,
         metadata_json = Some (TooDeep ''[[[['')\<rparr>]\<rparr>\<rparr>"

text \<open>What lies beyond the query as written is, for the evaluations, a syntax error.\<close>

definition refuse_beyond :: "graph_db \<Rightarrow> exn + (bool \<times> graph_db)" where
  "refuse_beyond d = Inl (CypherSyntaxError ''query'')"

section \<open>Properties\<close>

subsection \<open>Auxiliary facts\<close>

lemma ensure_initialized_ok: "initialized s \<Longrightarrow> ensure_initialized s = Inr ()"
  by (simp add: initialized_def ensure_initialized_def)

lemma add_thought_given_id:
  assumes "initialized s" "X \<noteq> []"
  shows "add_thought env now c X m s =
     (case create_thought now X c (dumps env (JObj (metadata_or_empty m))) (db s) of
        Inl e \<Rightarrow> (Failed ''Failed to add thought'' e, s)
      | Inr d \<Rightarrow> (Returned X, s\<lparr>db := d\<rparr>))"
  using assms by (simp add: add_thought_def ensure_initialized_ok)

lemma add_thought_success:
  assumes "initialized s" "X \<noteq> []" "add_thought env now c X m s = (Returned X, s1)"
  shows "s1 = s\<lparr>db := (db s)\<lparr>nodes := nodes (db s) @
             [\<lparr>node_id = X, content = c, timestamp = now,
               metadata_json = Some (dumps env (JObj (metadata_or_empty m)))\<rparr>]\<rparr>\<rparr>"
    and "thought_id_unique (db s) \<Longrightarrow> X \<notin> set (map node_id (nodes (db s)))"
  using assms by (auto simp: add_thought_given_id create_thought_def split: if_splits)

lemma add_twice_neo:
  assumes "initialized s" "thought_id_unique (db s)" "X \<noteq> []"
      "add_thought env now c X m s = (Returned X, s1)"
  shows "add_thought env now' c' X m' s1 = (Failed ''Failed to add thought'' (ConstraintError X), s1)"
proof -
  note s1 = add_thought_success(1)[OF assms(1,3,4)]
  have "initialized s1" using assms(1) by (simp add: s1 initialized_def)
  moreover have "thought_id_unique (db s1)" "X \<in> set (map node_id (nodes (db s1)))"
    using assms(2) by (simp_all add: s1)
  ultimately show ?thesis using assms(3)
    by (simp add: add_thought_given_id create_thought_def)
qed

lemma ensure_rag_ready_Inr:
  "ensure_rag_ready t = Inr kg \<longleftrightarrow> rag_instance t = Bound (Some kg) \<and> is_initialized' t"
  by (auto simp: ensure_rag_ready_def not_ready_def no_attribute_def
      split: attribute.splits option.splits)

lemma value_error_or_Er: "take 2 (value_error_or (CHR ''E'' # CHR ''r'' # p) e) = ''Er''"
  by (cases e) simp_all

lemma create_entity_success:
  assumes "create_entity L X desc ty src t =
             (Inr (''Entity '' @ quoted X @ '' created successfully.''), t1)"
  shows "\<exists>kg k1. ensure_rag_ready t = Inr kg \<and> X \<noteq> [] \<and>
           acreate_entity L X \<lparr>e_description = or_default desc [],
             e_entity_type = or_default ty ''UNKNOWN'', e_source_id = src\<rparr> kg = (Inr (), k1) \<and>
           t1 = with_kg t k1"
proof (cases "ensure_rag_ready t")
  case (Inl e)
  with assms show ?thesis by (simp add: create_entity_def)
next
  case (Inr kg)
  show ?thesis
  proof (cases "X = []")
    case True
    with assms Inr show ?thesis by (simp add: create_entity_def)
  next
    case False
    obtain r k1 where r: "acreate_entity L X \<lparr>e_description = or_default desc [],
        e_entity_type = or_default ty ''UNKNOWN'', e_source_id = src\<rparr> kg = (r, k1)"
      by (cases "acreate_entity L X \<lparr>e_description = or_default desc [],
        e_entity_type = or_default ty ''UNKNOWN'', e_source_id = src\<rparr> kg") auto
    show ?thesis
    proof (cases r)
      case (Inl e)
      with assms Inr False r
      have "value_error_or (''Error creating entity '' @ quoted X @ '': '') e =
              ''Entity '' @ quoted X @ '' created successfully.''"
        by (simp add: create_entity_def)
      then have "take 2 (value_error_or (''Error creating entity '' @ quoted X @ '': '') e) = ''En''"
        by simp
      then have False by (simp add: value_error_or_Er)
      then show ?thesis ..
    next
      case (Inr u)
      with assms \<open>ensure_rag_ready t = Inr kg\<close> False r show ?thesis
        by (auto simp: create_entity_def)
    qed
  qed
qed

lemma connected_tools_eq:
  "connected_tools = \<lparr>driver = True, is_initialized = True,
     db = \<lparr>thought_id_unique = True, nodes = [], relationships = []\<rparr>, uuids_drawn = 0\<rparr>"
  by (simp add: connected_tools_def new_tools_def empty_db_def initialize_connection_def
      create_constraint_def)

lemma ready_tool_eq:
  "ready_tool = \<lparr>rag_instance = Bound (Some empty_kg), is_initialized' = True, default_top_k = 5\<rparr>"
  by (simp add: ready_tool_def init_def initialize_def mem_rag_def with_kg_def or_default_def)

text \<open>
  The constraint goes with the flag: a successful \<^verbatim>\<open>initialize_connection\<close> leaves the tool
  initialized over a database that has the constraint, the methods that write keep it,
  and running \<^verbatim>\<open>initialize_connection\<close> again against a server that answers changes
  nothing.
\<close>

lemma initialize_connection_success:
  "fst (initialize_connection h s) = Returned m \<Longrightarrow>
   initialized (snd (initialize_connection h s)) \<and>
   thought_id_unique (db (snd (initialize_connection h s)))"
  by (cases h)
     (auto simp: initialize_connection_def create_constraint_def initialized_def
        split: sum.splits if_splits)

lemma initialize_connection_again:
  "initialized s \<Longrightarrow> thought_id_unique (db s) \<Longrightarrow>
   initialize_connection Connected s = (Returned ''Neo4j connection initialized successfully'', s)"
  by (simp add: initialize_connection_def create_constraint_def initialized_def)

lemma constraint_kept:
  "thought_id_unique (db s) \<Longrightarrow> thought_id_unique (db (snd (add_thought env now c X m s)))"
  "thought_id_unique (db s) \<Longrightarrow> query_ok rt (props_or_empty props) \<Longrightarrow>
   thought_id_unique (db (snd (connect_thoughts beyond A B rt w props s)))"
  by (auto simp: add_thought_def create_thought_def connect_thoughts_def merge_relationship_def
      Let_def split: sum.splits if_splits prod.splits)

lemma find_last_new:
  "x \<notin> set (map f xs) \<Longrightarrow> f y = x \<Longrightarrow> find (\<lambda>n. f n = x) (xs @ [y]) = Some y"
  by (induction xs) auto

lemma ready_same: "ensure_rag_ready t = Inr kg \<Longrightarrow> with_kg t kg = t"
  by (simp add: ensure_rag_ready_Inr with_kg_def)

text \<open>
  Over the graph store of the specification, a \<^verbatim>\<open>create_entity\<close> that succeeded has put
  the name into the store, and the next one under that name gets the refusal of
  \<^verbatim>\<open>create_node\<close>.
\<close>

lemma create_entity_stored:
  assumes "create_entity (over_graph_store L) X desc ty src t =
             (Inr (''Entity '' @ quoted X @ '' created successfully.''), t1)"
  shows "\<exists>kg. ensure_rag_ready t = Inr kg \<and> X \<noteq> [] \<and> \<not> has_entity kg X \<and>
           t1 = with_kg t (kg\<lparr>entities := entities kg @
                  [(X, \<lparr>e_description = or_default desc [],
                        e_entity_type = or_default ty ''UNKNOWN'', e_source_id = src\<rparr>)]\<rparr>)"
proof -
  from create_entity_success[OF assms] obtain kg k1 where
    rdy: "ensure_rag_ready t = Inr kg" and X: "X \<noteq> []" and
    c: "acreate_entity (over_graph_store L) X \<lparr>e_description = or_default desc [],
          e_entity_type = or_default ty ''UNKNOWN'', e_source_id = src\<rparr> kg = (Inr (), k1)"
    and t1: "t1 = with_kg t k1" by blast
  from c have "\<not> has_entity kg X \<and> k1 = kg\<lparr>entities := entities kg @
                  [(X, \<lparr>e_description = or_default desc [],
                        e_entity_type = or_default ty ''UNKNOWN'', e_source_id = src\<rparr>)]\<rparr>"
    by (auto simp: over_graph_store_def create_node_def split: if_splits)
  with rdy X t1 show ?thesis by blast
qed

lemma create_entity_twice:
  assumes "create_entity (over_graph_store L) X desc ty src t =
             (Inr (''Entity '' @ quoted X @ '' created successfully.''), t1)"
  shows "create_entity (over_graph_store L) X desc' ty' src' t1 =
           (Inr (''Error: AlreadyExists: '' @ quoted X), t1)"
proof -
  from create_entity_stored[OF assms] obtain kg where
    rdy: "ensure_rag_ready t = Inr kg" and X: "X \<noteq> []" and
    t1: "t1 = with_kg t (kg\<lparr>entities := entities kg @
                  [(X, \<lparr>e_description = or_default desc [],
                        e_entity_type = or_default ty ''UNKNOWN'', e_source_id = src\<rparr>)]\<rparr>)"
    by blast
  define k1 where "k1 = kg\<lparr>entities := entities kg @
                  [(X, \<lparr>e_description = or_default desc [],
                        e_entity_type = or_default ty ''UNKNOWN'', e_source_id = src\<rparr>)]\<rparr>"
  have r1: "ensure_rag_ready t1 = Inr k1"
    using rdy by (simp add: t1 k1_def ensure_rag_ready_Inr with_kg_def)
  have has: "has_entity k1 X" by (simp add: k1_def has_entity_def)
  have same: "with_kg t1 k1 = t1" by (rule ready_same[OF r1])
  show ?thesis
    using X by (simp add: create_entity_def r1 over_graph_store_def create_node_def has same)
qed


subsection \<open>Creating an entity twice\<close>

lemma add_twice_neo_imp:
  "initialized s \<and> thought_id_unique (db s) \<and> X \<noteq> [] \<and>
      add_thought env now c X m s = (Returned X, s1)
     \<longrightarrow> add_thought env now' c' X m' s1 =
           (Failed ''Failed to add thought'' (ConstraintError X), s1) \<and>
         match_thought X (db s1) =
           Some \<lparr>node_id = X, content = c, timestamp = now,
                 metadata_json = Some (dumps env (JObj (metadata_or_empty m)))\<rparr>"
proof (intro impI conjI; elim conjE)
  assume h: "initialized s" "thought_id_unique (db s)" "X \<noteq> []"
    "add_thought env now c X m s = (Returned X, s1)"
  show "add_thought env now' c' X m' s1 =
           (Failed ''Failed to add thought'' (ConstraintError X), s1)"
    by (rule add_twice_neo[OF h])
  have new: "X \<notin> set (map node_id (nodes (db s)))"
    by (rule add_thought_success(2)[OF h(1,3,4) h(2)])
  show "match_thought X (db s1) =
           Some \<lparr>node_id = X, content = c, timestamp = now,
                 metadata_json = Some (dumps env (JObj (metadata_or_empty m)))\<rparr>"
    by (simp add: add_thought_success(1)[OF h(1,3,4)] match_thought_def find_last_new[OF new])
qed

lemma create_entity_twice_imp:
  "create_entity (over_graph_store L) X desc ty src t =
         (Inr (''Entity '' @ quoted X @ '' created successfully.''), t1)
     \<longrightarrow> create_entity (over_graph_store L) X desc' ty' src' t1 =
           (Inr (''Error: AlreadyExists: '' @ quoted X), t1)"
  by (intro impI) (rule create_entity_twice)

text \<open>
  C1. Creating an entity a second time under the id of a first, successful creation is
  refused with an error, and nothing stored changes. In the thought graph: when the tool
  is initialized, the constraint \<^verbatim>\<open>thought_id_unique\<close> is in place and
  \<^verbatim>\<open>add_thought\<close> has returned the id \<open>X\<close>, a second \<^verbatim>\<open>add_thought\<close> with \<open>X\<close>, whatever
  its content and metadata, gets the constraint violation from the server and returns
  \<^verbatim>\<open>Error: Failed to add thought: ...\<close>; the state after the call is the state before
  it, in which \<open>X\<close> is the node of the first call, with its content, its time and its
  metadata. In the knowledge base, whose library creates entities through
  \<^verbatim>\<open>create_node\<close> of the graph store: when \<^verbatim>\<open>create_entity\<close> has returned its success
  text for \<open>X\<close>, a second \<^verbatim>\<open>create_entity\<close> with \<open>X\<close>, whatever its description, type
  and source, returns \<^verbatim>\<open>Error: AlreadyExists: '<X>'\<close> and leaves the tool, and the store
  inside it, as it was. Nothing is assumed of the other calls of the library \<open>L\<close>.
\<close>

theorem create_on_existing_id_fails:
  "(initialized s \<and> thought_id_unique (db s) \<and> X \<noteq> [] \<and>
      add_thought env now c X m s = (Returned X, s1)
     \<longrightarrow> add_thought env now' c' X m' s1 =
           (Failed ''Failed to add thought'' (ConstraintError X), s1) \<and>
         match_thought X (db s1) =
           Some \<lparr>node_id = X, content = c, timestamp = now,
                 metadata_json = Some (dumps env (JObj (metadata_or_empty m)))\<rparr>)
   \<and> (create_entity (over_graph_store L) X desc ty src t =
         (Inr (''Entity '' @ quoted X @ '' created successfully.''), t1)
     \<longrightarrow> create_entity (over_graph_store L) X desc' ty' src' t1 =
           (Inr (''Error: AlreadyExists: '' @ quoted X), t1))"
  by (intro conjI add_twice_neo_imp create_entity_twice_imp)

theorem create_on_existing_id_fails_witness:
  "initialized connected_tools \<and> thought_id_unique (db connected_tools) \<and> ''sky'' \<noteq> [] \<and>
   add_thought sample_env 1 ''The sky is blue'' ''sky'' None connected_tools =
     (Returned ''sky'', snd (add_thought sample_env 1 ''The sky is blue'' ''sky'' None connected_tools)) \<and>
   add_thought sample_env 2 ''The sky is grey'' ''sky'' None
       (snd (add_thought sample_env 1 ''The sky is blue'' ''sky'' None connected_tools)) =
     (Failed ''Failed to add thought'' (ConstraintError ''sky''),
      snd (add_thought sample_env 1 ''The sky is blue'' ''sky'' None connected_tools)) \<and>
   create_entity (over_graph_store mem_rag) ''sky'' (Some ''blue'') None ''manual'' ready_tool =
     (Inr (''Entity '' @ quoted ''sky'' @ '' created successfully.''),
      snd (create_entity (over_graph_store mem_rag) ''sky'' (Some ''blue'') None ''manual'' ready_tool)) \<and>
   create_entity (over_graph_store mem_rag) ''sky'' (Some ''grey'') None ''manual''
       (snd (create_entity (over_graph_store mem_rag) ''sky'' (Some ''blue'') None ''manual'' ready_tool)) =
     (Inr (''Error: AlreadyExists: '' @ quoted ''sky''),
      snd (create_entity (over_graph_store mem_rag) ''sky'' (Some ''blue'') None ''manual'' ready_tool))"
proof -
  have a1: "initialized connected_tools" by (simp add: connected_tools_eq initialized_def)
  have a2: "thought_id_unique (db connected_tools)" by (simp add: connected_tools_eq)
  have a3: "''sky'' \<noteq> []" by simp
  have a4: "add_thought sample_env 1 ''The sky is blue'' ''sky'' None connected_tools =
     (Returned ''sky'', snd (add_thought sample_env 1 ''The sky is blue'' ''sky'' None connected_tools))"
    by (simp add: connected_tools_eq add_thought_def ensure_initialized_def create_thought_def)
  have b1: "create_entity (over_graph_store mem_rag) ''sky'' (Some ''blue'') None ''manual'' ready_tool =
     (Inr (''Entity '' @ quoted ''sky'' @ '' created successfully.''),
      snd (create_entity (over_graph_store mem_rag) ''sky'' (Some ''blue'') None ''manual'' ready_tool))"
    by (simp add: ready_tool_eq create_entity_def ensure_rag_ready_def over_graph_store_def
        create_node_def has_entity_def empty_kg_def)
  have e: "add_thought sample_env 2 ''The sky is grey'' ''sky'' None
       (snd (add_thought sample_env 1 ''The sky is blue'' ''sky'' None connected_tools)) =
     (Failed ''Failed to add thought'' (ConstraintError ''sky''),
      snd (add_thought sample_env 1 ''The sky is blue'' ''sky'' None connected_tools))"
    by (rule create_on_existing_id_fails[where s = connected_tools and c = "''The sky is blue''"
          and now = 1 and m = None, THEN conjunct1, THEN mp, THEN conjunct1])
       (intro conjI a1 a2 a3 a4)
  have f: "create_entity (over_graph_store mem_rag) ''sky'' (Some ''grey'') None ''manual''
       (snd (create_entity (over_graph_store mem_rag) ''sky'' (Some ''blue'') None ''manual'' ready_tool)) =
     (Inr (''Error: AlreadyExists: '' @ quoted ''sky''),
      snd (create_entity (over_graph_store mem_rag) ''sky'' (Some ''blue'') None ''manual'' ready_tool))"
    by (rule create_on_existing_id_fails[where t = ready_tool and desc = "Some ''blue''"
          and ty = None and src = "''manual''", THEN conjunct2, THEN mp]) (rule b1)
  show ?thesis by (intro conjI a1 a2 a3 a4 e b1 f)
qed


subsection \<open>The default thought id\<close>

lemma add_thought_literal_id:
  "X \<noteq> [] \<Longrightarrow> uuids_drawn (snd (add_thought env now c X m s)) = uuids_drawn s"
  by (simp add: add_thought_def split: sum.splits)

text \<open>
  C10. A call of \<^verbatim>\<open>add_thought\<close> that leaves \<^verbatim>\<open>thought_id\<close> out runs with the literal id
  \<^verbatim>\<open>"Thought"\<close>. No identifier is drawn from \<^verbatim>\<open>uuid.uuid4()\<close> by such a call, in any
  state. On an initialized tool the call either creates the node with the id
  \<^verbatim>\<open>Thought\<close> (and the content, time and serialized metadata of the call) or is refused
  under that id. Under the constraint, once one such call has returned \<^verbatim>\<open>Thought\<close>, a
  second call without id returns \<^verbatim>\<open>Error: Failed to add thought: ...\<close> for the constraint
  violation and changes nothing.
\<close>

theorem omitted_thought_id_is_literal:
  "uuids_drawn (snd (add_thought_default env now c m s)) = uuids_drawn s
   \<and> (initialized s \<longrightarrow>
        add_thought_default env now c m s =
          (Returned ''Thought'',
           s\<lparr>db := (db s)\<lparr>nodes := nodes (db s) @
              [\<lparr>node_id = ''Thought'', content = c, timestamp = now,
                metadata_json = Some (dumps env (JObj (metadata_or_empty m)))\<rparr>]\<rparr>\<rparr>)
        \<or> add_thought_default env now c m s =
          (Failed ''Failed to add thought'' (ConstraintError ''Thought''), s))
   \<and> (initialized s \<and> thought_id_unique (db s) \<and>
        add_thought_default env now c m s = (Returned ''Thought'', s1)
      \<longrightarrow> add_thought_default env now' c' m' s1 =
            (Failed ''Failed to add thought'' (ConstraintError ''Thought''), s1))"
proof (intro conjI impI)
  show "uuids_drawn (snd (add_thought_default env now c m s)) = uuids_drawn s"
    by (simp add: add_thought_default_def add_thought_literal_id)
next
  assume "initialized s"
  then show "add_thought_default env now c m s =
          (Returned ''Thought'',
           s\<lparr>db := (db s)\<lparr>nodes := nodes (db s) @
              [\<lparr>node_id = ''Thought'', content = c, timestamp = now,
                metadata_json = Some (dumps env (JObj (metadata_or_empty m)))\<rparr>]\<rparr>\<rparr>)
        \<or> add_thought_default env now c m s =
          (Failed ''Failed to add thought'' (ConstraintError ''Thought''), s)"
    by (simp add: add_thought_default_def add_thought_given_id create_thought_def)
next
  assume "initialized s \<and> thought_id_unique (db s) \<and>
        add_thought_default env now c m s = (Returned ''Thought'', s1)"
  then show "add_thought_default env now' c' m' s1 =
            (Failed ''Failed to add thought'' (ConstraintError ''Thought''), s1)"
    unfolding add_thought_default_def using add_twice_neo[of s "''Thought''"] by blast
qed

theorem omitted_thought_id_is_literal_witness:
  "initialized connected_tools \<and> thought_id_unique (db connected_tools) \<and>
   add_thought_default sample_env 1 ''The sky is blue'' None connected_tools =
     (Returned ''Thought'', snd (add_thought_default sample_env 1 ''The sky is blue'' None connected_tools)) \<and>
   uuids_drawn (snd (add_thought_default sample_env 1 ''The sky is blue'' None connected_tools)) = 0 \<and>
   add_thought_default sample_env 2 ''Grass is green'' None
       (snd (add_thought_default sample_env 1 ''The sky is blue'' None connected_tools)) =
     (Failed ''Failed to add thought'' (ConstraintError ''Thought''),
      snd (add_thought_default sample_env 1 ''The sky is blue'' None connected_tools))"
proof -
  have h: "initialized connected_tools \<and> thought_id_unique (db connected_tools) \<and>
     add_thought_default sample_env 1 ''The sky is blue'' None connected_tools =
     (Returned ''Thought'', snd (add_thought_default sample_env 1 ''The sky is blue'' None connected_tools))"
    by (simp add: connected_tools_eq initialized_def add_thought_default_def add_thought_def
        ensure_initialized_def create_thought_def)
  have z: "uuids_drawn connected_tools = 0" by (simp add: connected_tools_eq)
  from omitted_thought_id_is_literal[of sample_env 1 "''The sky is blue''" None connected_tools
      "snd (add_thought_default sample_env 1 ''The sky is blue'' None connected_tools)"
      2 "''Grass is green''" None] h z
  show ?thesis by simp
qed

subsection \<open>Merging an entity into itself\<close>

text \<open>
  C3. On a tool that is ready, \<^verbatim>\<open>merge_entities\<close> with the target as the only source
  returns an error text about its arguments: \<^verbatim>\<open>Error: Cannot merge entity '<target>' into
  itself.\<close>, or, when the target is the empty string, \<^verbatim>\<open>Error: 'target_entity' must be a
  non-empty string.\<close>. The tool is left as it was, and the equation holds for every
  library \<open>L\<close>: the library is not called, so nothing is created, changed or deleted.
\<close>

theorem merge_into_itself_refused:
  "ensure_rag_ready t = Inr kg \<Longrightarrow>
   merge_entities L [g] g ov t =
     (Inr (if g = [] then ''Error: 'target_entity' must be a non-empty string.''
           else ''Error: Cannot merge entity '' @ quoted g @ '' into itself.''), t)"
  by (simp add: merge_entities_def)

theorem merge_into_itself_refused_witness:
  "ensure_rag_ready ready_tool = Inr empty_kg \<and>
   merge_entities mem_rag [''sky''] ''sky'' None ready_tool =
     (Inr (''Error: Cannot merge entity '' @ quoted ''sky'' @ '' into itself.''), ready_tool)"
proof -
  have h: "ensure_rag_ready ready_tool = Inr empty_kg"
    by (simp add: ready_tool_eq ensure_rag_ready_def)
  from merge_into_itself_refused[OF h, of mem_rag "''sky''" None] h show ?thesis by simp
qed


subsection \<open>Relations and their ends\<close>


lemma connect_present:
  assumes "initialized s" "query_ok rt (props_or_empty props)"
    "match_thought A (db s) \<noteq> None" "match_thought B (db s) \<noteq> None"
  shows "fst (connect_thoughts beyond A B rt w props s) = Returned (rt, w)"
    and "list_ex (same_relationship A B rt w)
           (relationships (db (snd (connect_thoughts beyond A B rt w props s))))"
    and "nodes (db (snd (connect_thoughts beyond A B rt w props s))) = nodes (db s)"
  using assms
  by (auto simp: connect_thoughts_def ensure_initialized_ok merge_relationship_def Let_def
      same_relationship_def)

lemma connect_relationships:
  assumes "query_ok rt (props_or_empty props)"
  shows "set (relationships (db (snd (connect_thoughts beyond A B rt w props s))))
     \<subseteq> insert \<lparr>source_of = A, target_of = B, rel_type = rt, weight = w, properties = []\<rparr>
         (set (relationships (db s)))"
  using assms
  by (auto simp: connect_thoughts_def merge_relationship_def Let_def split: sum.splits if_splits)


lemma create_relation_ready:
  assumes "ensure_rag_ready t = Inr kg" "A \<noteq> []" "B \<noteq> []"
  shows "create_relation L A B d kw w src t =
    (case acreate_relation L A B \<lparr>r_description = or_default d [], r_keywords = or_default kw [],
            r_weight = w, r_source_id = src\<rparr> kg of
       (Inr u, k1) \<Rightarrow> (Inr (''Relation '' @ arrow A B @ '' created successfully.''), with_kg t k1)
     | (Inl e, k1) \<Rightarrow>
         (Inr (value_error_or (''Error creating relation '' @ arrow_tight A B @ '': '') e), with_kg t k1))"
  using assms by (simp add: create_relation_def)

lemma one_thought_eq:
  "one_thought = \<lparr>driver = True, is_initialized = True,
     db = \<lparr>thought_id_unique = True,
           nodes = [\<lparr>node_id = ''a'', content = ''The sky is blue'', timestamp = 1,
                     metadata_json = Some (Json (JObj []))\<rparr>],
           relationships = []\<rparr>, uuids_drawn = 0\<rparr>"
  by (simp add: one_thought_def connected_tools_eq add_thought_def ensure_initialized_def
      create_thought_def sample_env_def python_json_def json_dumps_def metadata_or_empty_def)

lemma two_thoughts_eq:
  "two_thoughts = \<lparr>driver = True, is_initialized = True,
     db = \<lparr>thought_id_unique = True,
           nodes = [\<lparr>node_id = ''a'', content = ''The sky is blue'', timestamp = 1,
                     metadata_json = Some (Json (JObj []))\<rparr>,
                    \<lparr>node_id = ''b'', content = ''The sea is blue'', timestamp = 2,
                     metadata_json = Some (Json (JObj []))\<rparr>],
           relationships = []\<rparr>, uuids_drawn = 0\<rparr>"
  by (simp add: two_thoughts_def one_thought_eq add_thought_def ensure_initialized_def
      create_thought_def sample_env_def python_json_def json_dumps_def metadata_or_empty_def)


lemma related_to_ok: "query_ok ''RELATED_TO'' (props_or_empty None)"
  by (simp add: query_ok_def cypher_name_ok_def ident_part_def ident_start_def
      props_or_empty_def other_props_def)











subsection \<open>The weight of a relation\<close>

lemma connect_relationships_imp:
  "query_ok rt (props_or_empty props) \<longrightarrow>
   set (relationships (db (snd (connect_thoughts beyond A B rt w props s))))
     \<subseteq> insert \<lparr>source_of = A, target_of = B, rel_type = rt, weight = w, properties = []\<rparr>
         (set (relationships (db s)))"
  by (intro impI) (rule connect_relationships)

lemma connect_stores_weight:
  "initialized s \<and> query_ok rt (props_or_empty props) \<and>
      match_thought A (db s) \<noteq> None \<and> match_thought B (db s) \<noteq> None
     \<longrightarrow> fst (connect_thoughts beyond A B rt w props s) = Returned (rt, w) \<and>
         list_ex (same_relationship A B rt w)
           (relationships (db (snd (connect_thoughts beyond A B rt w props s))))"
proof (intro impI conjI; elim conjE)
  assume h: "initialized s" "query_ok rt (props_or_empty props)"
      "match_thought A (db s) \<noteq> None" "match_thought B (db s) \<noteq> None"
  show "fst (connect_thoughts beyond A B rt w props s) = Returned (rt, w)"
    by (rule connect_present(1)[OF h])
  show "list_ex (same_relationship A B rt w)
           (relationships (db (snd (connect_thoughts beyond A B rt w props s))))"
    by (rule connect_present(2)[OF h])
qed

lemma connect_keeps_bounds:
  "query_ok rt (props_or_empty props) \<and>
   list_all (\<lambda>r. 0 \<le> weight r \<and> weight r \<le> 1) (relationships (db s)) \<and> 0 \<le> w \<and> w \<le> 1
   \<longrightarrow> list_all (\<lambda>r. 0 \<le> weight r \<and> weight r \<le> 1)
         (relationships (db (snd (connect_thoughts beyond A B rt w props s))))"
proof (intro impI, elim conjE)
  assume ok: "query_ok rt (props_or_empty props)"
    and old: "list_all (\<lambda>r. 0 \<le> weight r \<and> weight r \<le> 1) (relationships (db s))"
    and w: "0 \<le> w" "w \<le> 1"
  show "list_all (\<lambda>r. 0 \<le> weight r \<and> weight r \<le> 1)
         (relationships (db (snd (connect_thoughts beyond A B rt w props s))))"
    unfolding list_all_iff
  proof
    fix r assume "r \<in> set (relationships (db (snd (connect_thoughts beyond A B rt w props s))))"
    with connect_relationships[OF ok, of beyond A B w s]
    have "r = \<lparr>source_of = A, target_of = B, rel_type = rt, weight = w, properties = []\<rparr>
          \<or> r \<in> set (relationships (db s))"
      by blast
    then show "0 \<le> weight r \<and> weight r \<le> 1"
      using old w by (auto simp: list_all_iff)
  qed
qed

lemma create_relation_hands_weight:
  "ensure_rag_ready t = Inr kg \<and> A \<noteq> [] \<and> B \<noteq> [] \<longrightarrow>
   create_relation L A B d kw w src t =
    (case acreate_relation L A B \<lparr>r_description = or_default d [], r_keywords = or_default kw [],
            r_weight = w, r_source_id = src\<rparr> kg of
       (Inr u, k1) \<Rightarrow> (Inr (''Relation '' @ arrow A B @ '' created successfully.''), with_kg t k1)
     | (Inl e, k1) \<Rightarrow>
         (Inr (value_error_or (''Error creating relation '' @ arrow_tight A B @ '': '') e), with_kg t k1))"
  by (intro impI, elim conjE) (rule create_relation_ready)

text \<open>
  C8, as the claim states it, fails: on the two thoughts \<^verbatim>\<open>a\<close> and \<^verbatim>\<open>b\<close>, the call
  \<^verbatim>\<open>connect_thoughts("a", "b", "RELATED_TO", 1.5)\<close> returns its success text and the one
  relationship stored has the weight 3/2, which is above 1: the call is not refused and
  the weight is not brought into the range from 0 to 1.
\<close>

theorem weight_out_of_range_is_stored:
  "fst (connect_thoughts refuse_beyond ''a'' ''b'' ''RELATED_TO'' (3/2) None two_thoughts) =
     Returned (''RELATED_TO'', 3/2) \<and>
   map weight (relationships (db (snd (connect_thoughts refuse_beyond ''a'' ''b'' ''RELATED_TO''
      (3/2) None two_thoughts)))) = [3/2] \<and>
   \<not> (3/2 \<le> (1::real))"
  by (simp add: two_thoughts_eq connect_thoughts_def ensure_initialized_def merge_relationship_def
      related_to_ok match_thought_def)

text \<open>
  C8, amended. Neither method applies a policy to the weight. For a query that is the one
  written in the source (\<open>query_ok\<close>: a relationship type of letters, digits and
  underscores, no property other than the weight), \<^verbatim>\<open>connect_thoughts\<close> adds at most one
  relationship, the one of the call with exactly the weight given, and when both ends
  match it returns its success text and a relationship with that weight is stored; so
  when the stored weights and the weight given lie between 0 and 1, the stored weights
  still do after the call. \<^verbatim>\<open>create_relation\<close>, on a ready tool and for two names that
  are not empty, calls \<^verbatim>\<open>acreate_relation\<close> of the library, whichever it is, with the
  weight it was given, and its reply depends on that call alone.
\<close>

theorem weight_stored_as_given:
  "(query_ok rt (props_or_empty props) \<longrightarrow>
      set (relationships (db (snd (connect_thoughts beyond A B rt w props s))))
        \<subseteq> insert \<lparr>source_of = A, target_of = B, rel_type = rt, weight = w, properties = []\<rparr>
            (set (relationships (db s))))
   \<and> (initialized s \<and> query_ok rt (props_or_empty props) \<and>
      match_thought A (db s) \<noteq> None \<and> match_thought B (db s) \<noteq> None
     \<longrightarrow> fst (connect_thoughts beyond A B rt w props s) = Returned (rt, w) \<and>
         list_ex (same_relationship A B rt w)
           (relationships (db (snd (connect_thoughts beyond A B rt w props s)))))
   \<and> (query_ok rt (props_or_empty props) \<and>
      list_all (\<lambda>r. 0 \<le> weight r \<and> weight r \<le> 1) (relationships (db s)) \<and> 0 \<le> w \<and> w \<le> 1
     \<longrightarrow> list_all (\<lambda>r. 0 \<le> weight r \<and> weight r \<le> 1)
           (relationships (db (snd (connect_thoughts beyond A B rt w props s)))))
   \<and> (ensure_rag_ready t = Inr kg \<and> A \<noteq> [] \<and> B \<noteq> [] \<longrightarrow>
      create_relation L A B d kw w src t =
       (case acreate_relation L A B \<lparr>r_description = or_default d [], r_keywords = or_default kw [],
               r_weight = w, r_source_id = src\<rparr> kg of
          (Inr u, k1) \<Rightarrow> (Inr (''Relation '' @ arrow A B @ '' created successfully.''), with_kg t k1)
        | (Inl e, k1) \<Rightarrow>
            (Inr (value_error_or (''Error creating relation '' @ arrow_tight A B @ '': '') e),
             with_kg t k1)))"
  by (intro conjI connect_relationships_imp connect_stores_weight connect_keeps_bounds
      create_relation_hands_weight)

theorem weight_stored_as_given_witness:
  "initialized two_thoughts \<and> query_ok ''RELATED_TO'' (props_or_empty None) \<and>
   match_thought ''a'' (db two_thoughts) \<noteq> None \<and> match_thought ''b'' (db two_thoughts) \<noteq> None \<and>
   fst (connect_thoughts refuse_beyond ''a'' ''b'' ''RELATED_TO'' (1/2) None two_thoughts) =
     Returned (''RELATED_TO'', 1/2) \<and>
   list_all (\<lambda>r. 0 \<le> weight r \<and> weight r \<le> 1) (relationships (db two_thoughts)) \<and>
   (0::real) \<le> 1/2 \<and> (1/2::real) \<le> 1 \<and>
   list_all (\<lambda>r. 0 \<le> weight r \<and> weight r \<le> 1)
     (relationships (db (snd (connect_thoughts refuse_beyond ''a'' ''b'' ''RELATED_TO'' (1/2) None
        two_thoughts)))) \<and>
   ensure_rag_ready ready_tool = Inr empty_kg \<and>
   create_relation mem_rag ''a'' ''b'' None None (-2) ''manual'' ready_tool =
     (Inr (''Error: Source entity '' @ quoted ''a'' @ '' does not exist''), ready_tool)"
proof -
  have a2: "query_ok ''RELATED_TO'' (props_or_empty None)" by (rule related_to_ok)
  have b1: "initialized two_thoughts" by (simp add: two_thoughts_eq initialized_def)
  have b2: "match_thought ''a'' (db two_thoughts) \<noteq> None"
    by (simp add: two_thoughts_eq match_thought_def)
  have b3: "match_thought ''b'' (db two_thoughts) \<noteq> None"
    by (simp add: two_thoughts_eq match_thought_def)
  have c: "list_all (\<lambda>r. 0 \<le> weight r \<and> weight r \<le> 1) (relationships (db two_thoughts))"
    by (simp add: two_thoughts_eq)
  have w1: "(0::real) \<le> 1/2" and w2: "(1/2::real) \<le> 1" by simp_all
  have r1: "ensure_rag_ready ready_tool = Inr empty_kg"
    by (simp add: ready_tool_eq ensure_rag_ready_def)
  have r2: "\<not> has_entity empty_kg ''a''" by (simp add: has_entity_def empty_kg_def)
  have f: "fst (connect_thoughts refuse_beyond ''a'' ''b'' ''RELATED_TO'' (1/2) None two_thoughts) =
     Returned (''RELATED_TO'', 1/2)"
    by (rule weight_stored_as_given[THEN conjunct2, THEN conjunct1, THEN mp, THEN conjunct1])
       (simp add: b1 b2 b3 a2)
  have g: "list_all (\<lambda>r. 0 \<le> weight r \<and> weight r \<le> 1)
     (relationships (db (snd (connect_thoughts refuse_beyond ''a'' ''b'' ''RELATED_TO'' (1/2) None
        two_thoughts))))"
    by (rule weight_stored_as_given[THEN conjunct2, THEN conjunct2, THEN conjunct1, THEN mp])
       (simp add: c a2)
  have h0: "create_relation mem_rag ''a'' ''b'' None None (-2) ''manual'' ready_tool =
       (case acreate_relation mem_rag ''a'' ''b'' \<lparr>r_description = or_default None [],
               r_keywords = or_default None [], r_weight = -2, r_source_id = ''manual''\<rparr> empty_kg of
          (Inr u, k1) \<Rightarrow>
            (Inr (''Relation '' @ arrow ''a'' ''b'' @ '' created successfully.''), with_kg ready_tool k1)
        | (Inl e, k1) \<Rightarrow>
            (Inr (value_error_or (''Error creating relation '' @ arrow_tight ''a'' ''b'' @ '': '') e),
             with_kg ready_tool k1))"
    by (rule weight_stored_as_given[where t = ready_tool and kg = empty_kg,
          THEN conjunct2, THEN conjunct2, THEN conjunct2, THEN mp])
       (simp add: r1)
  have h: "create_relation mem_rag ''a'' ''b'' None None (-2) ''manual'' ready_tool =
     (Inr (''Error: Source entity '' @ quoted ''a'' @ '' does not exist''), ready_tool)"
    by (subst h0) (simp add: mem_rag_def mem_create_relation_def r2 ready_same[OF r1])
  show ?thesis by (intro conjI b1 a2 b2 b3 f c w1 w2 g r1 h)
qed


subsection \<open>Searching thoughts\<close>

lemma thought_data_fields:
  "thought_data env n = Inr t \<Longrightarrow>
   d_id t = node_id n \<and> d_content t = content n \<and> d_timestamp t = timestamp n"
  by (auto simp: thought_data_def Let_def split: option.splits sum.splits if_splits)

lemma thought_data_readable: "readable env n \<Longrightarrow> \<exists>t. thought_data env n = Inr t"
  by (auto simp: thought_data_def readable_def Let_def split: option.splits sum.splits)

lemma thoughts_data_fields:
  "thoughts_data env ns = Inr ds \<Longrightarrow>
   map d_id ds = map node_id ns \<and> map d_content ds = map content ns \<and>
   map d_timestamp ds = map timestamp ns"
proof (induction ns arbitrary: ds)
  case Nil
  then show ?case by simp
next
  case (Cons n ns)
  from Cons.prems obtain t ts where
    t: "thought_data env n = Inr t" and ts: "thoughts_data env ns = Inr ts" and ds: "ds = t # ts"
    by (auto split: sum.splits)
  from thought_data_fields[OF t] Cons.IH[OF ts] show ?case by (simp add: ds)
qed

lemma thoughts_data_readable:
  "list_all (readable env) ns \<Longrightarrow> \<exists>ds. thoughts_data env ns = Inr ds"
proof (induction ns)
  case Nil
  then show ?case by simp
next
  case (Cons n ns)
  from Cons.prems have "readable env n" and "list_all (readable env) ns" by simp_all
  with Cons.IH thought_data_readable[of env n] show ?case by auto
qed

lemma search_negative:
  "initialized s \<and> limit < 0 \<longrightarrow>
   search_thoughts env q limit s =
     (Failed ''Failed to search thoughts''
        (ArgumentError ''LIMIT: must be a non-negative integer''), s)"
  by (simp add: search_thoughts_def ensure_initialized_ok search_query_def)

lemma search_readable:
  "initialized s \<and> 0 \<le> limit \<and>
   list_all (readable env) (take (nat limit) (filter (\<lambda>n. sublist q (content n)) (nodes (db s))))
   \<longrightarrow> (\<exists>ds. search_thoughts env q limit s = (Returned ds, s))"
proof (intro impI, elim conjE)
  assume i: "initialized s" and l: "0 \<le> limit"
    and r: "list_all (readable env)
              (take (nat limit) (filter (\<lambda>n. sublist q (content n)) (nodes (db s))))"
  from thoughts_data_readable[OF r] obtain ds where
    "thoughts_data env (take (nat limit) (filter (\<lambda>n. sublist q (content n)) (nodes (db s))))
       = Inr ds" ..
  with i l have "search_thoughts env q limit s = (Returned ds, s)"
    by (simp add: search_thoughts_def ensure_initialized_ok search_query_def)
  then show "\<exists>ds. search_thoughts env q limit s = (Returned ds, s)" ..
qed

lemma search_returned:
  "fst (search_thoughts env q limit s) = Returned ds \<longrightarrow>
   0 \<le> limit \<and> snd (search_thoughts env q limit s) = s \<and>
   length ds \<le> nat limit \<and> list_all (\<lambda>d. sublist q (d_content d)) ds \<and>
   subseq (take (nat limit) (filter (\<lambda>n. sublist q (content n)) (nodes (db s)))) (nodes (db s)) \<and>
   map d_id ds = map node_id (take (nat limit) (filter (\<lambda>n. sublist q (content n)) (nodes (db s)))) \<and>
   map d_content ds = map content (take (nat limit) (filter (\<lambda>n. sublist q (content n)) (nodes (db s)))) \<and>
   map d_timestamp ds =
     map timestamp (take (nat limit) (filter (\<lambda>n. sublist q (content n)) (nodes (db s))))"
proof
  assume r: "fst (search_thoughts env q limit s) = Returned ds"
  define ns where "ns = take (nat limit) (filter (\<lambda>n. sublist q (content n)) (nodes (db s)))"
  from r have l: "0 \<le> limit" and st: "snd (search_thoughts env q limit s) = s"
    and td: "thoughts_data env ns = Inr ds"
    by (auto simp: search_thoughts_def search_query_def ns_def split: sum.splits if_splits)
  note f = thoughts_data_fields[OF td]
  have "subseq ns (filter (\<lambda>n. sublist q (content n)) (nodes (db s)))"
    unfolding ns_def by (metis append_take_drop_id list_emb_prefix subseq_order.order_refl)
  then have sub: "subseq ns (nodes (db s))"
    by (meson subseq_filter_left subseq_order.order_trans)
  have "set ns \<subseteq> set (filter (\<lambda>n. sublist q (content n)) (nodes (db s)))"
    unfolding ns_def by (rule set_take_subset)
  then have "list_all (\<lambda>c. sublist q c) (map content ns)"
    by (auto simp: list_all_iff)
  then have "list_all (\<lambda>c. sublist q c) (map d_content ds)" using f by simp
  then have c: "list_all (\<lambda>d. sublist q (d_content d)) ds" by (simp add: list_all_iff)
  have "length (map d_id ds) = length (map node_id ns)" using f by simp
  then have "length ds = length ns" by simp
  then have len: "length ds \<le> nat limit" by (simp add: ns_def)
  show "0 \<le> limit \<and> snd (search_thoughts env q limit s) = s \<and>
   length ds \<le> nat limit \<and> list_all (\<lambda>d. sublist q (d_content d)) ds \<and>
   subseq (take (nat limit) (filter (\<lambda>n. sublist q (content n)) (nodes (db s)))) (nodes (db s)) \<and>
   map d_id ds = map node_id (take (nat limit) (filter (\<lambda>n. sublist q (content n)) (nodes (db s)))) \<and>
   map d_content ds = map content (take (nat limit) (filter (\<lambda>n. sublist q (content n)) (nodes (db s)))) \<and>
   map d_timestamp ds =
     map timestamp (take (nat limit) (filter (\<lambda>n. sublist q (content n)) (nodes (db s))))"
    using l st len c sub f unfolding ns_def by (intro conjI) simp_all
qed

lemma blue_in_sky: "sublist ''blue'' ''The sky is blue''" by code_simp
lemma blue_in_sea: "sublist ''blue'' ''The sea is blue''" by code_simp

lemma sample_loads_empty: "loads sample_env (Json (JObj [])) = Inr (JObj [])"
  by (simp add: sample_env_def python_json_def json_loads_def)

text \<open>
  C7, as the claim states it, fails in its last part: with the thought \<^verbatim>\<open>a\<close> added at
  time 1 and the thought \<^verbatim>\<open>b\<close> at time 2, both containing \<^verbatim>\<open>blue\<close>,
  \<^verbatim>\<open>search_thoughts("blue", 10)\<close> lists \<^verbatim>\<open>a\<close> before \<^verbatim>\<open>b\<close>, the older first. The query of
  \<^verbatim>\<open>search_thoughts\<close> has no \<^verbatim>\<open>ORDER BY\<close>; \<^verbatim>\<open>get_all_node_ids\<close>, whose query has one,
  lists \<^verbatim>\<open>b\<close> first.
\<close>

theorem search_lists_oldest_first:
  "fst (search_thoughts sample_env ''blue'' 10 two_thoughts) =
     Returned [\<lparr>d_id = ''a'', d_content = ''The sky is blue'', d_timestamp = 1,
                 d_metadata = Some (JObj []), d_metadata_json = None\<rparr>,
               \<lparr>d_id = ''b'', d_content = ''The sea is blue'', d_timestamp = 2,
                 d_metadata = Some (JObj []), d_metadata_json = None\<rparr>] \<and>
   (1::nat) < 2 \<and>
   fst (get_all_node_ids two_thoughts) = Returned [''b'', ''a'']"
  by (simp add: two_thoughts_eq search_thoughts_def ensure_initialized_def search_query_def
      blue_in_sky blue_in_sea thought_data_def sample_loads_empty get_all_node_ids_def
      all_ids_query_def)

text \<open>
  C7, amended. On an initialized tool \<^verbatim>\<open>search_thoughts\<close> with a negative limit returns
  \<^verbatim>\<open>Error: Failed to search thoughts: ...\<close> for the refusal of the server, and the state
  is unchanged. With a limit that is not negative it returns a list when every node it
  has to list is readable (\<^verbatim>\<open>json.loads\<close> returns on its \<^verbatim>\<open>metadata_json\<close>, or raises
  what the inner handler catches). Whatever list it returns, for any limit, the limit is
  not negative, the state is unchanged, the list has at most \<open>limit\<close> entries, each with
  the text in its content, and its entries are, with their ids, contents and timestamps,
  the nodes whose content contains the text in the order in which the store lists them,
  cut at the limit; no order by timestamp is imposed.
\<close>

theorem search_in_store_order:
  "(initialized s \<and> limit < 0 \<longrightarrow>
      search_thoughts env q limit s =
        (Failed ''Failed to search thoughts''
           (ArgumentError ''LIMIT: must be a non-negative integer''), s))
   \<and> (initialized s \<and> 0 \<le> limit \<and>
      list_all (readable env)
        (take (nat limit) (filter (\<lambda>n. sublist q (content n)) (nodes (db s))))
     \<longrightarrow> (\<exists>ds. search_thoughts env q limit s = (Returned ds, s)))
   \<and> (fst (search_thoughts env q limit s) = Returned ds \<longrightarrow>
        0 \<le> limit \<and> snd (search_thoughts env q limit s) = s \<and>
        length ds \<le> nat limit \<and> list_all (\<lambda>d. sublist q (d_content d)) ds \<and>
        subseq (take (nat limit) (filter (\<lambda>n. sublist q (content n)) (nodes (db s))))
          (nodes (db s)) \<and>
        map d_id ds =
          map node_id (take (nat limit) (filter (\<lambda>n. sublist q (content n)) (nodes (db s)))) \<and>
        map d_content ds =
          map content (take (nat limit) (filter (\<lambda>n. sublist q (content n)) (nodes (db s)))) \<and>
        map d_timestamp ds =
          map timestamp (take (nat limit) (filter (\<lambda>n. sublist q (content n)) (nodes (db s)))))"
  by (intro conjI search_negative search_readable search_returned)


theorem search_in_store_order_witness:
  "initialized two_thoughts \<and> (-1::int) < 0 \<and>
   search_thoughts sample_env ''blue'' (-1) two_thoughts =
     (Failed ''Failed to search thoughts''
        (ArgumentError ''LIMIT: must be a non-negative integer''), two_thoughts) \<and>
   (0::int) \<le> 1 \<and>
   list_all (readable sample_env)
     (take (nat 1) (filter (\<lambda>n. sublist ''blue'' (content n)) (nodes (db two_thoughts)))) \<and>
   (\<exists>ds. search_thoughts sample_env ''blue'' 1 two_thoughts = (Returned ds, two_thoughts)) \<and>
   fst (search_thoughts sample_env ''blue'' 1 two_thoughts) =
     Returned [\<lparr>d_id = ''a'', d_content = ''The sky is blue'', d_timestamp = 1,
                 d_metadata = Some (JObj []), d_metadata_json = None\<rparr>] \<and>
   length [\<lparr>d_id = ''a'', d_content = ''The sky is blue'', d_timestamp = 1,
            d_metadata = Some (JObj []), d_metadata_json = None\<rparr>] \<le> nat 1 \<and>
   map d_id [\<lparr>d_id = ''a'', d_content = ''The sky is blue'', d_timestamp = 1,
            d_metadata = Some (JObj []), d_metadata_json = None\<rparr>] =
     map node_id (take (nat 1) (filter (\<lambda>n. sublist ''blue'' (content n)) (nodes (db two_thoughts))))"
proof -
  let ?a = "\<lparr>d_id = ''a'', d_content = ''The sky is blue'', d_timestamp = 1,
             d_metadata = Some (JObj []), d_metadata_json = None\<rparr>"
  have a: "initialized two_thoughts" by (simp add: two_thoughts_eq initialized_def)
  have n: "(-1::int) < 0" by simp
  have b: "(0::int) \<le> 1" by simp
  have c: "list_all (readable sample_env)
     (take (nat 1) (filter (\<lambda>n. sublist ''blue'' (content n)) (nodes (db two_thoughts))))"
    by (simp add: two_thoughts_eq blue_in_sky blue_in_sea readable_def sample_loads_empty)
  have d: "fst (search_thoughts sample_env ''blue'' 1 two_thoughts) = Returned [?a]"
    by (simp add: two_thoughts_eq search_thoughts_def ensure_initialized_def search_query_def
        blue_in_sky blue_in_sea thought_data_def sample_loads_empty)
  have e: "search_thoughts sample_env ''blue'' (-1) two_thoughts =
     (Failed ''Failed to search thoughts''
        (ArgumentError ''LIMIT: must be a non-negative integer''), two_thoughts)"
    by (rule search_in_store_order[THEN conjunct1, THEN mp]) (simp add: a)
  have f: "\<exists>ds. search_thoughts sample_env ''blue'' 1 two_thoughts = (Returned ds, two_thoughts)"
    by (rule search_in_store_order[THEN conjunct2, THEN conjunct1, THEN mp])
       (intro conjI a b c)
  note g = search_in_store_order[where env = sample_env and q = "''blue''" and limit = 1
      and s = two_thoughts and ds = "[?a]", THEN conjunct2, THEN conjunct2, THEN mp, OF d]
  have g1: "length [?a] \<le> nat 1" by (rule g[THEN conjunct2, THEN conjunct2, THEN conjunct1])
  have g2: "map d_id [?a] =
     map node_id (take (nat 1) (filter (\<lambda>n. sublist ''blue'' (content n)) (nodes (db two_thoughts))))"
    by (rule g[THEN conjunct2, THEN conjunct2, THEN conjunct2, THEN conjunct2, THEN conjunct2,
          THEN conjunct1])
  show ?thesis by (intro conjI a n e b c f d g1 g2)
qed


subsection \<open>Metadata written and read back\<close>






text \<open>
  A text nested too deep is another matter: \<^verbatim>\<open>json.loads\<close> raises \<^verbatim>\<open>RecursionError\<close>,
  which the inner handler does not catch, and \<^verbatim>\<open>get_thought\<close> returns the error text of
  its outer handler.
\<close>

lemma get_nested:
  "get_thought sample_env ''n'' nested_tools =
     (Failed ''Failed to get thought'' (RecursionError ''[[[[''), nested_tools)"
  by (simp add: nested_tools_def connected_tools_eq get_thought_def ensure_initialized_def
      match_thought_def thought_data_def sample_env_def python_json_def json_loads_def)






subsection \<open>Storing the same content twice\<close>

















subsection \<open>Retrieval and its mode\<close>

lemma retrieve_ready:
  assumes "ensure_rag_ready t = Inr kg" "q \<noteq> []"
  shows "retrieve L q mode k t =
    (case aquery L q mode (case k of Some n \<Rightarrow> n | None \<Rightarrow> default_top_k t) kg of
       (Inr (Text r), k1) \<Rightarrow>
         (Inr (if r \<noteq> [] then r
               else ''No results or response generated for mode '' @ quoted mode @ ''.''),
          with_kg t k1)
     | (Inr (NotText ty), k1) \<Rightarrow>
         (Inr (''Received unexpected response type ('' @ ty @ '') for mode ''
               @ quoted mode @ ''. Needs handling.''), with_kg t k1)
     | (Inl e, k1) \<Rightarrow>
         (Inr (any_error (''Error during '' @ quoted mode @ '' retrieval: '') e), with_kg t k1))"
  using assms by (simp add: retrieve_def)

lemma retrieve_returns:
  "ensure_rag_ready t = Inr kg \<and> q \<noteq> [] \<longrightarrow> (\<exists>r t'. retrieve L q mode k t = (Inr r, t'))"
proof (intro impI, elim conjE)
  assume h: "ensure_rag_ready t = Inr kg" "q \<noteq> []"
  obtain a k1 where a: "aquery L q mode (case k of Some n \<Rightarrow> n | None \<Rightarrow> default_top_k t) kg = (a, k1)"
    by (cases "aquery L q mode (case k of Some n \<Rightarrow> n | None \<Rightarrow> default_top_k t) kg") auto
  show "\<exists>r t'. retrieve L q mode k t = (Inr r, t')"
    by (simp add: retrieve_ready[OF h] a split: sum.splits response.splits)
qed

lemma retrieve_library_raises:
  "ensure_rag_ready t = Inr kg \<and> q \<noteq> [] \<and>
   aquery L q mode (case k of Some n \<Rightarrow> n | None \<Rightarrow> default_top_k t) kg = (Inl e, k1)
   \<longrightarrow> retrieve L q mode k t =
        (Inr (''Error during '' @ quoted mode @ '' retrieval: '' @ str_exn e), with_kg t k1)"
proof (intro impI, elim conjE)
  assume h: "ensure_rag_ready t = Inr kg" "q \<noteq> []"
    and a: "aquery L q mode (case k of Some n \<Rightarrow> n | None \<Rightarrow> default_top_k t) kg = (Inl e, k1)"
  show "retrieve L q mode k t =
        (Inr (''Error during '' @ quoted mode @ '' retrieval: '' @ str_exn e), with_kg t k1)"
    by (simp add: retrieve_ready[OF h] a any_error_def)
qed

lemma retrieve_library_answers:
  "ensure_rag_ready t = Inr kg \<and> q \<noteq> [] \<and>
   aquery L q mode (case k of Some n \<Rightarrow> n | None \<Rightarrow> default_top_k t) kg = (Inr (Text r), k1)
   \<longrightarrow> retrieve L q mode k t =
        (Inr (if r = [] then ''No results or response generated for mode '' @ quoted mode @ ''.''
              else r), with_kg t k1)"
proof (intro impI, elim conjE)
  assume h: "ensure_rag_ready t = Inr kg" "q \<noteq> []"
    and a: "aquery L q mode (case k of Some n \<Rightarrow> n | None \<Rightarrow> default_top_k t) kg = (Inr (Text r), k1)"
  show "retrieve L q mode k t =
        (Inr (if r = [] then ''No results or response generated for mode '' @ quoted mode @ ''.''
              else r), with_kg t k1)"
    by (simp add: retrieve_ready[OF h] a)
qed

lemma five_methods:
  "retrieve_naive L q k t = retrieve L q ''naive'' k t \<and>
   retrieve_local_kg L q k t = retrieve L q ''local'' k t \<and>
   retrieve_global_kg L q k t = retrieve L q ''global'' k t \<and>
   retrieve_hybrid L q k t = retrieve L q ''hybrid'' k t \<and>
   retrieve_mix_kg_vector L q k t = retrieve L q ''mix'' k t"
  by (simp add: retrieve_naive_def retrieve_local_kg_def retrieve_global_kg_def
      retrieve_hybrid_def retrieve_mix_kg_vector_def)

text \<open>
  C4, as the claim states it, fails in its first part: \<^verbatim>\<open>_retrieve\<close> does not look at the
  mode. Against a library that serves the mode \<^verbatim>\<open>bypass\<close>, which is none of the five
  names, the call returns the answer of the library and no error.
\<close>

theorem mode_outside_the_five_answered:
  "retrieve mem_rag ''What colour is the sky?'' ''bypass'' None ready_tool =
     (Inr ''LLM: What colour is the sky?'', ready_tool) \<and>
   ''bypass'' \<notin> set [''naive'', ''local'', ''global'', ''hybrid'', ''mix'']"
  by (simp add: ready_tool_eq retrieve_def ensure_rag_ready_def mem_rag_def mem_query_def
      with_kg_def)

text \<open>
  C4, amended. On a tool that is ready and for a query that is not empty, \<^verbatim>\<open>_retrieve\<close>
  returns a string for every mode and every library, and never raises. It hands the
  mode to the library as it is: when the library raises (as for a mode it does not know),
  the string is \<^verbatim>\<open>Error during '<mode>' retrieval: <message>\<close>; when the library answers
  with the empty string, it is \<^verbatim>\<open>No results or response generated for mode '<mode>'.\<close>;
  otherwise it is the answer. The five public methods call \<^verbatim>\<open>_retrieve\<close> with the modes
  \<^verbatim>\<open>naive\<close>, \<^verbatim>\<open>local\<close>, \<^verbatim>\<open>global\<close>, \<^verbatim>\<open>hybrid\<close> and \<^verbatim>\<open>mix\<close>.
\<close>

theorem retrieve_forwards_mode:
  "(ensure_rag_ready t = Inr kg \<and> q \<noteq> [] \<longrightarrow> (\<exists>r t'. retrieve L q mode k t = (Inr r, t')))
   \<and> (ensure_rag_ready t = Inr kg \<and> q \<noteq> [] \<and>
      aquery L q mode (case k of Some n \<Rightarrow> n | None \<Rightarrow> default_top_k t) kg = (Inl e, k1)
     \<longrightarrow> retrieve L q mode k t =
          (Inr (''Error during '' @ quoted mode @ '' retrieval: '' @ str_exn e), with_kg t k1))
   \<and> (ensure_rag_ready t = Inr kg \<and> q \<noteq> [] \<and>
      aquery L q mode (case k of Some n \<Rightarrow> n | None \<Rightarrow> default_top_k t) kg = (Inr (Text r), k1)
     \<longrightarrow> retrieve L q mode k t =
          (Inr (if r = [] then ''No results or response generated for mode '' @ quoted mode @ ''.''
                else r), with_kg t k1))
   \<and> (retrieve_naive L q k t = retrieve L q ''naive'' k t \<and>
      retrieve_local_kg L q k t = retrieve L q ''local'' k t \<and>
      retrieve_global_kg L q k t = retrieve L q ''global'' k t \<and>
      retrieve_hybrid L q k t = retrieve L q ''hybrid'' k t \<and>
      retrieve_mix_kg_vector L q k t = retrieve L q ''mix'' k t)"
  by (intro conjI retrieve_returns retrieve_library_raises retrieve_library_answers)
     (simp_all add: five_methods)

theorem retrieve_forwards_mode_witness:
  "ensure_rag_ready ready_tool = Inr empty_kg \<and> ''What colour is the sky?'' \<noteq> [] \<and>
   retrieve mem_rag ''What colour is the sky?'' ''bogus'' None ready_tool =
     (Inr (''Error during '' @ quoted ''bogus'' @ '' retrieval: '' @ ''Unknown mode bogus''),
      ready_tool) \<and>
   retrieve_naive mem_rag ''What colour is the sky?'' None ready_tool =
     (Inr (''No results or response generated for mode '' @ quoted ''naive'' @ ''.''), ready_tool) \<and>
   retrieve_local_kg mem_rag ''What colour is the sky?'' None ready_tool =
     (Inr (''No results or response generated for mode '' @ quoted ''local'' @ ''.''), ready_tool) \<and>
   retrieve_global_kg mem_rag ''What colour is the sky?'' None ready_tool =
     (Inr (''No results or response generated for mode '' @ quoted ''global'' @ ''.''), ready_tool) \<and>
   retrieve_hybrid mem_rag ''What colour is the sky?'' None ready_tool =
     (Inr (''No results or response generated for mode '' @ quoted ''hybrid'' @ ''.''), ready_tool) \<and>
   retrieve_mix_kg_vector mem_rag ''What colour is the sky?'' None ready_tool =
     (Inr (''No results or response generated for mode '' @ quoted ''mix'' @ ''.''), ready_tool)"
proof -
  have a: "ensure_rag_ready ready_tool = Inr empty_kg"
    by (simp add: ready_tool_eq ensure_rag_ready_def)
  have b: "''What colour is the sky?'' \<noteq> []" by simp
  have same: "with_kg ready_tool empty_kg = ready_tool" by (simp add: ready_tool_eq with_kg_def)
  have q0: "aquery mem_rag ''What colour is the sky?'' ''bogus''
       (case None of Some n \<Rightarrow> n | None \<Rightarrow> default_top_k ready_tool) empty_kg =
     (Inl (ValueError ''Unknown mode bogus''), empty_kg)"
    by (simp add: mem_rag_def mem_query_def)
  have q: "aquery mem_rag ''What colour is the sky?'' m
       (case None of Some n \<Rightarrow> n | None \<Rightarrow> default_top_k ready_tool) empty_kg =
     (Inr (Text []), empty_kg)"
    if "m \<in> set [''naive'', ''local'', ''global'', ''hybrid'', ''mix'']" for m
    using that by (simp add: mem_rag_def mem_query_def empty_kg_def)
  note T = retrieve_forwards_mode[where t = ready_tool and kg = empty_kg and L = mem_rag
      and q = "''What colour is the sky?''" and k = None and ?k1.0 = empty_kg]
  have c: "retrieve mem_rag ''What colour is the sky?'' ''bogus'' None ready_tool =
     (Inr (''Error during '' @ quoted ''bogus'' @ '' retrieval: '' @ ''Unknown mode bogus''),
      ready_tool)"
    using T[where mode = "''bogus''" and e = "ValueError ''Unknown mode bogus''",
        THEN conjunct2, THEN conjunct1, THEN mp, OF conjI[OF a conjI[OF b q0]]]
    by (simp add: same)
  have d: "retrieve mem_rag ''What colour is the sky?'' m None ready_tool =
     (Inr (''No results or response generated for mode '' @ quoted m @ ''.''), ready_tool)"
    if "m \<in> set [''naive'', ''local'', ''global'', ''hybrid'', ''mix'']" for m
    using T[where mode = m and r = "[]", THEN conjunct2, THEN conjunct2, THEN conjunct1, THEN mp,
        OF conjI[OF a conjI[OF b q[OF that]]]]
    by (simp add: same)
  note w = T[where mode = "''naive''", THEN conjunct2, THEN conjunct2, THEN conjunct2]
  show ?thesis
    by (intro conjI a b c) (simp_all add: w d)
qed

subsection \<open>Operations on a tool that is not ready\<close>

text \<open>
  Every data operation of \<^verbatim>\<open>LightRAGTool\<close> starts with \<^verbatim>\<open>_ensure_rag_ready\<close>: what the
  guard raises is what the operation raises, the tool is left as it was, and the library
  is not reached (the equations hold for every library). When the attribute
  \<^verbatim>\<open>rag_instance\<close> is bound and the tool has no object or is not initialized, which is
  also its state after \<^verbatim>\<open>finalize\<close>, that is the \<^verbatim>\<open>RuntimeError\<close> \<open>not_ready\<close>. Calling
  \<^verbatim>\<open>initialize\<close> on an initialized tool changes nothing and returns
  \<^verbatim>\<open>LightRAGTool is already initialized.\<close> The methods of \<^verbatim>\<open>Neo4jThoughtTools\<close> embedded
  here return the error text of \<^verbatim>\<open>_ensure_initialized\<close> and leave the state alone when
  the tool is not initialized.
\<close>

lemma guard_comes_first:
  "ensure_rag_ready t = Inl e \<Longrightarrow> run L c t = (Inl e, t)"
  by (cases c)
     (simp_all add: as_text_def store_text_def retrieve_def create_entity_def edit_entity_def
        delete_entity_def create_relation_def edit_relation_def delete_relation_def
        merge_entities_def get_entity_details_def get_relation_details_def delete_document_def)

lemma bound_not_ready:
  "rag_instance t = Bound k \<Longrightarrow> k = None \<or> \<not> is_initialized' t \<Longrightarrow>
   ensure_rag_ready t = Inl not_ready"
  by (auto simp: ensure_rag_ready_def split: option.splits)

lemma not_ready_refused:
  "rag_instance t = Bound k \<Longrightarrow> k = None \<or> \<not> is_initialized' t \<Longrightarrow>
   run L c t = (Inl not_ready, t)"
  by (rule guard_comes_first) (rule bound_not_ready)

lemma initialize_again:
  "is_initialized' t \<Longrightarrow> initialize L t = (Inr ''LightRAGTool is already initialized.'', t)"
  by (simp add: initialize_def)

lemma finalize_closes:
  "ensure_rag_ready t = Inr kg \<Longrightarrow>
   \<not> is_initialized' (snd (finalize L t)) \<and> rag_instance (snd (finalize L t)) \<noteq> Unbound"
  by (auto simp: ensure_rag_ready_Inr finalize_def with_kg_def split: prod.splits sum.splits)

lemma not_initialized_refused:
  assumes "\<not> initialized s"
  shows "add_thought env now c X m s =
           (Failed ''Failed to add thought''
              (ValueError ''Neo4j connection not initialized. Call 'initialize_connection' first.''), s)"
    and "connect_thoughts beyond A B rt w props s =
           (Failed ''Failed to connect thoughts''
              (ValueError ''Neo4j connection not initialized. Call 'initialize_connection' first.''), s)"
    and "get_thought env X s =
           (Failed ''Failed to get thought''
              (ValueError ''Neo4j connection not initialized. Call 'initialize_connection' first.''), s)"
    and "search_thoughts env q limit s =
           (Failed ''Failed to search thoughts''
              (ValueError ''Neo4j connection not initialized. Call 'initialize_connection' first.''), s)"
    and "get_all_node_ids s =
           (Failed ''Failed to retrieve thought node IDs''
              (ValueError ''Neo4j connection not initialized. Call 'initialize_connection' first.''), s)"
  using assms
  by (auto simp: initialized_def ensure_initialized_def add_thought_def connect_thoughts_def
      get_thought_def search_thoughts_def get_all_node_ids_def)

lemma init_without_key:
  "init True None instantiate k = \<lparr>rag_instance = Unbound, is_initialized' = False, default_top_k = k\<rparr>"
  by (simp add: init_def or_default_def)

text \<open>
  C6 fails on the code in one state. A \<^verbatim>\<open>LightRAGTool\<close> built without an API key has no
  attribute \<^verbatim>\<open>rag_instance\<close> at all: \<^verbatim>\<open>__init__\<close> returns before the only assignments
  to it. In that state every data operation, \<^verbatim>\<open>store_text\<close> among them, raises the
  \<^verbatim>\<open>AttributeError\<close> of the guard's own read of the attribute and not the \<^verbatim>\<open>RuntimeError\<close>
  that the guard is written to raise, and \<^verbatim>\<open>initialize\<close> raises it too instead of
  returning its text \<^verbatim>\<open>Error: Cannot initialize, ...\<close>.
\<close>

theorem no_key_then_attribute_error:
  "init True None instantiate 5 =
     \<lparr>rag_instance = Unbound, is_initialized' = False, default_top_k = 5\<rparr> \<and>
   run L c (init True None instantiate 5) = (Inl no_attribute, init True None instantiate 5) \<and>
   store_text L ''The sky is blue'' None None (init True None instantiate 5) =
     (Inl no_attribute, init True None instantiate 5) \<and>
   initialize L (init True None instantiate 5) = (Inl no_attribute, init True None instantiate 5) \<and>
   no_attribute \<noteq> not_ready"
proof -
  have g: "ensure_rag_ready (init True None instantiate 5) = Inl no_attribute"
    by (simp add: init_without_key ensure_rag_ready_def)
  have "run L c (init True None instantiate 5) = (Inl no_attribute, init True None instantiate 5)"
    by (rule guard_comes_first[OF g])
  moreover have "store_text L ''The sky is blue'' None None (init True None instantiate 5) =
     (Inl no_attribute, init True None instantiate 5)"
    by (simp add: store_text_def g)
  moreover have "initialize L (init True None instantiate 5) =
     (Inl no_attribute, init True None instantiate 5)"
    by (simp add: init_without_key initialize_def)
  moreover have "no_attribute \<noteq> not_ready" by (simp add: no_attribute_def not_ready_def)
  ultimately show ?thesis by (simp add: init_without_key)
qed

end
